theory Spec2Isabelle
  imports Main
begin

section \<open>Values, errors and the two collaborators\<close>

text \<open>
  The account methods of PyCharacterAI (\<^verbatim>\<open>methods/synchronous/account.py\<close>) move JSON
  values between Python dictionaries and HTTP requests. A decoded JSON value is modelled
  by \<open>jvalue\<close>. A Python \<^verbatim>\<open>dict\<close> keeps its keys in insertion order and
  \<^verbatim>\<open>json.dumps\<close> writes them in that order, so an object is an association list.
  JSON numbers are restricted to integers.
\<close>

datatype jvalue =
    JNull
  | JBool bool
  | JInt int
  | JStr string
  | JArr "jvalue list"
  | JObj "(string \<times> jvalue) list"

text \<open>
  The exception classes the module imports from \<^verbatim>\<open>exceptions\<close>, and the two built-in
  exceptions that the dynamic operations on a decoded body can raise. Only the class of
  an exception is modelled, not its message.
\<close>

datatype error =
    FetchError
  | EditError
  | UpdateError
  | CreateError
  | SetError
  | InvalidArgumentError
  | DeleteError
  | AttributeError
  | TypeError

text \<open>Python truth value of a decoded JSON value (\<^verbatim>\<open>if x:\<close>).\<close>

fun truthy :: "jvalue \<Rightarrow> bool" where
  "truthy JNull = False"
| "truthy (JBool b) = b"
| "truthy (JInt i) = (i \<noteq> 0)"
| "truthy (JStr s) = (s \<noteq> [])"
| "truthy (JArr xs) = (xs \<noteq> [])"
| "truthy (JObj kvs) = (kvs \<noteq> [])"

text \<open>\<^verbatim>\<open>d.get(k, default)\<close> on a dictionary.\<close>

definition dict_get :: "(string \<times> jvalue) list \<Rightarrow> string \<Rightarrow> jvalue \<Rightarrow> jvalue" where
  "dict_get kvs k d = (case map_of kvs k of None \<Rightarrow> d | Some v \<Rightarrow> v)"

text \<open>
  \<^verbatim>\<open>x.get(k, default)\<close> on any decoded value: only a dictionary has the attribute
  \<^verbatim>\<open>get\<close>; on \<^verbatim>\<open>None\<close>, a list, a string or a number Python raises
  \<^verbatim>\<open>AttributeError\<close>.
\<close>

fun py_get :: "jvalue \<Rightarrow> string \<Rightarrow> jvalue \<Rightarrow> error + jvalue" where
  "py_get (JObj kvs) k d = Inr (dict_get kvs k d)"
| "py_get _ k d = Inl AttributeError"

text \<open>
  \<^verbatim>\<open>d[k] = v\<close> on a dictionary: an existing key keeps its position, a new key is
  appended.
\<close>

fun dict_set :: "(string \<times> jvalue) list \<Rightarrow> string \<Rightarrow> jvalue \<Rightarrow> (string \<times> jvalue) list" where
  "dict_set [] k v = [(k, v)]"
| "dict_set ((k', v') # kvs) k v =
     (if k' = k then (k, v) # kvs else (k', v') # dict_set kvs k v)"

text \<open>
  \<^verbatim>\<open>x[k] = v\<close> with a string key on any decoded value: item assignment with a string
  key raises \<^verbatim>\<open>TypeError\<close> on everything but a dictionary.
\<close>

fun py_setitem :: "jvalue \<Rightarrow> string \<Rightarrow> jvalue \<Rightarrow> error + jvalue" where
  "py_setitem (JObj kvs) k v = Inr (JObj (dict_set kvs k v))"
| "py_setitem _ k v = Inl TypeError"

text \<open>
  \<^verbatim>\<open>for item in x\<close> on a decoded value: a list gives its items, a dictionary its
  keys, a string its characters; \<^verbatim>\<open>None\<close>, booleans and numbers are not iterable.
\<close>

fun py_iter :: "jvalue \<Rightarrow> error + jvalue list" where
  "py_iter (JArr xs) = Inr xs"
| "py_iter (JObj kvs) = Inr (map (\<lambda>kv. JStr (fst kv)) kvs)"
| "py_iter (JStr s) = Inr (map (\<lambda>c. JStr [c]) s)"
| "py_iter _ = Inl TypeError"

text \<open>
  The loop \<^verbatim>\<open>for raw in raws: out.append(Ctor(raw))\<close>: the items are constructed in
  order and the first constructor that raises ends the loop with its exception.
\<close>

fun construct_all :: "(jvalue \<Rightarrow> error + 'a) \<Rightarrow> jvalue list \<Rightarrow> error + 'a list" where
  "construct_all ctor [] = Inr []"
| "construct_all ctor (x # xs) =
     (case ctor x of
        Inl e \<Rightarrow> Inl e
      | Inr y \<Rightarrow> (case construct_all ctor xs of Inl e \<Rightarrow> Inl e | Inr ys \<Rightarrow> Inr (y # ys)))"

subsection \<open>Requester and Client\<close>

text \<open>
  The value of the \<^verbatim>\<open>"body"\<close> option of a request: the key is absent (the fetches),
  it is \<^verbatim>\<open>None\<close>, or it is the string \<^verbatim>\<open>json.dumps(v)\<close>, which is represented by the
  value \<open>v\<close> that is serialised.
\<close>

datatype body = BodyAbsent | BodyNone | BodyDumps jvalue

text \<open>
  One call \<^verbatim>\<open>requester.request(url=..., options={...})\<close>. \<open>http_method\<close> is
  \<open>None\<close> when the options carry no \<^verbatim>\<open>"method"\<close> key.
\<close>

record request =
  url :: string
  http_method :: "string option"
  headers :: "(string \<times> string) list"
  body :: body

text \<open>What the module reads of a response: \<^verbatim>\<open>status_code\<close> and \<^verbatim>\<open>json()\<close>.\<close>

record response =
  status_code :: int
  json :: jvalue

text \<open>
  Modelled from the spec: the Client (its class is not among the sources) supplies the
  request headers and the account id, a string.
\<close>

record client =
  get_headers :: "(string \<times> string) list"
  get_account_id :: string

text \<open>
  Modelled from the spec: the Requester (its class is not among the sources) answers a
  request with a response. The remote server has a state \<open>'w\<close> of its own that a request
  may change. A transport failure inside the Requester is outside this module and is not
  modelled: every request is answered.
\<close>

type_synonym 'w requester = "'w \<Rightarrow> request \<Rightarrow> response \<times> 'w"

text \<open>The object \<^verbatim>\<open>AccountMethods\<close>: its two private attributes.\<close>

record 'w account_methods =
  client :: client
  requester :: "'w requester"

text \<open>
  The state threaded through every method: the server's state and the list of requests
  issued so far, oldest first (the call counter of a Requester double).
\<close>

record 'w session =
  world :: 'w
  calls :: "request list"

definition do_request :: "'w account_methods \<Rightarrow> request \<Rightarrow> 'w session \<Rightarrow> response \<times> 'w session" where
  "do_request self r s =
     (case requester self (world s) r of
        (resp, w') \<Rightarrow> (resp, \<lparr>world = w', calls = calls s @ [r]\<rparr>))"

definition get_request :: "'w account_methods \<Rightarrow> string \<Rightarrow> request" where
  "get_request self u =
     \<lparr>url = u, http_method = None, headers = get_headers (client self), body = BodyAbsent\<rparr>"

definition post_request :: "'w account_methods \<Rightarrow> string \<Rightarrow> body \<Rightarrow> request" where
  "post_request self u b =
     \<lparr>url = u, http_method = Some ''POST'', headers = get_headers (client self), body = b\<rparr>"

section \<open>Fetch operations\<close>

text \<open>
  The constructors \<^verbatim>\<open>Account\<close>, \<^verbatim>\<open>Persona\<close>, \<^verbatim>\<open>CharacterShort\<close> and \<^verbatim>\<open>Voice\<close>
  are imported from \<^verbatim>\<open>types\<close>, which is not among the sources. Each method takes the
  constructor it calls as its first argument; a constructor may raise.
\<close>

definition fetch_me ::
  "(jvalue \<Rightarrow> error + 'a) \<Rightarrow> 'w account_methods \<Rightarrow> 'w session \<Rightarrow> (error + 'a) \<times> 'w session" where
  "fetch_me Account self s =
     (case do_request self (get_request self ''https://plus.character.ai/chat/user/'') s of
        (request, s') \<Rightarrow>
          if status_code request = 200 then
            (case py_get (json request) ''user'' JNull of
               Inl e \<Rightarrow> (Inl e, s')
             | Inr u \<Rightarrow>
                 (case py_get u ''user'' JNull of
                    Inl e \<Rightarrow> (Inl e, s')
                  | Inr uu \<Rightarrow> (Account uu, s')))
          else (Inl FetchError, s'))"

definition fetch_my_settings ::
  "'w account_methods \<Rightarrow> 'w session \<Rightarrow> (error + jvalue) \<times> 'w session" where
  "fetch_my_settings self s =
     (case do_request self (get_request self ''https://plus.character.ai/chat/user/settings/'') s of
        (request, s') \<Rightarrow>
          if status_code request = 200 then (Inr (json request), s')
          else (Inl FetchError, s'))"

definition fetch_my_followers ::
  "'w account_methods \<Rightarrow> 'w session \<Rightarrow> (error + jvalue) \<times> 'w session" where
  "fetch_my_followers self s =
     (case do_request self (get_request self ''https://plus.character.ai/chat/user/followers/'') s of
        (request, s') \<Rightarrow>
          if status_code request = 200 then (py_get (json request) ''followers'' (JArr []), s')
          else (Inl FetchError, s'))"

definition fetch_my_following ::
  "'w account_methods \<Rightarrow> 'w session \<Rightarrow> (error + jvalue) \<times> 'w session" where
  "fetch_my_following self s =
     (case do_request self (get_request self ''https://plus.character.ai/chat/user/following/'') s of
        (request, s') \<Rightarrow>
          if status_code request = 200 then (py_get (json request) ''following'' (JArr []), s')
          else (Inl FetchError, s'))"

definition fetch_my_persona ::
  "(jvalue \<Rightarrow> error + 'p) \<Rightarrow> 'w account_methods \<Rightarrow> string \<Rightarrow> 'w session
     \<Rightarrow> (error + 'p) \<times> 'w session" where
  "fetch_my_persona Persona self persona_id s =
     (case do_request self
             (get_request self (''https://plus.character.ai/chat/persona/?id='' @ persona_id)) s of
        (request, s') \<Rightarrow>
          if status_code request = 200 then
            (case py_get (json request) ''persona'' JNull of
               Inl e \<Rightarrow> (Inl e, s')
             | Inr persona \<Rightarrow>
                 if truthy persona then (Persona persona, s') else (Inl FetchError, s'))
          else (Inl FetchError, s'))"

text \<open>
  The four list fetches differ in their URL, their field and their constructor only:
  \<^verbatim>\<open>raw = request.json().get(field, [])\<close>, then the construction loop.
\<close>

definition fetch_list ::
  "string \<Rightarrow> string \<Rightarrow> (jvalue \<Rightarrow> error + 'a) \<Rightarrow> 'w account_methods \<Rightarrow> 'w session
     \<Rightarrow> (error + 'a list) \<times> 'w session" where
  "fetch_list u field ctor self s =
     (case do_request self (get_request self u) s of
        (request, s') \<Rightarrow>
          if status_code request = 200 then
            (case py_get (json request) field (JArr []) of
               Inl e \<Rightarrow> (Inl e, s')
             | Inr raw \<Rightarrow>
                 (case py_iter raw of
                    Inl e \<Rightarrow> (Inl e, s')
                  | Inr items \<Rightarrow> (construct_all ctor items, s')))
          else (Inl FetchError, s'))"

definition fetch_my_personas ::
  "(jvalue \<Rightarrow> error + 'p) \<Rightarrow> 'w account_methods \<Rightarrow> 'w session \<Rightarrow> (error + 'p list) \<times> 'w session" where
  "fetch_my_personas Persona =
     fetch_list ''https://plus.character.ai/chat/personas/?force_refresh=1'' ''personas'' Persona"

definition fetch_my_characters ::
  "(jvalue \<Rightarrow> error + 'c) \<Rightarrow> 'w account_methods \<Rightarrow> 'w session \<Rightarrow> (error + 'c list) \<times> 'w session" where
  "fetch_my_characters CharacterShort =
     fetch_list ''https://plus.character.ai/chat/characters/?scope=user'' ''characters'' CharacterShort"

definition fetch_my_upvoted_characters ::
  "(jvalue \<Rightarrow> error + 'c) \<Rightarrow> 'w account_methods \<Rightarrow> 'w session \<Rightarrow> (error + 'c list) \<times> 'w session" where
  "fetch_my_upvoted_characters CharacterShort =
     fetch_list ''https://plus.character.ai/chat/user/characters/upvoted/'' ''characters'' CharacterShort"

definition fetch_my_voices ::
  "(jvalue \<Rightarrow> error + 'v) \<Rightarrow> 'w account_methods \<Rightarrow> 'w session \<Rightarrow> (error + 'v list) \<times> 'w session" where
  "fetch_my_voices Voice =
     fetch_list ''https://neo.character.ai/multimodal/api/v1/voices/user'' ''voices'' Voice"

section \<open>Settings update\<close>

text \<open>
  The private method \<^verbatim>\<open>__update_settings(options)\<close>. Both callers pass a dictionary
  literal whose values are strings, so \<open>options\<close> is an association list of strings and
  \<^verbatim>\<open>options.get(k, None)\<close> is \<open>map_of options k\<close>. The fetched settings are mutated
  in place; the model passes the updated value on. \<^verbatim>\<open>persona_overrides\<close> is the
  dictionary stored under \<^verbatim>\<open>"personaOverrides"\<close> itself (or a fresh empty one), so
  writing it back leaves the key where it was (or appends it).
\<close>

type_synonym options = "(string \<times> string) list"

definition apply_default_persona_id :: "string option \<Rightarrow> jvalue \<Rightarrow> error + jvalue" where
  "apply_default_persona_id default_persona_id settings =
     (case default_persona_id of
        None \<Rightarrow> Inr settings
      | Some d \<Rightarrow> py_setitem settings ''default_persona_id'' (JStr d))"

definition apply_persona_override ::
  "string option \<Rightarrow> string option \<Rightarrow> jvalue \<Rightarrow> error + jvalue" where
  "apply_persona_override persona_override character_id settings =
     (case (persona_override, character_id) of
        (Some p, Some c) \<Rightarrow>
          (case py_get settings ''personaOverrides'' (JObj []) of
             Inl e \<Rightarrow> Inl e
           | Inr persona_overrides \<Rightarrow>
               (case py_setitem persona_overrides c (JStr p) of
                  Inl e \<Rightarrow> Inl e
                | Inr persona_overrides' \<Rightarrow>
                    py_setitem settings ''personaOverrides'' persona_overrides'))
      | _ \<Rightarrow> Inr settings)"

definition update_settings ::
  "'w account_methods \<Rightarrow> options \<Rightarrow> 'w session \<Rightarrow> (error + jvalue) \<times> 'w session" where
  "update_settings self options s =
     (let default_persona_id = map_of options ''default_persona_id'';
          persona_override = map_of options ''persona_override'';
          voice_override = map_of options ''voice_override'';
          character_id = map_of options ''character_id''
      in
        if default_persona_id = None \<and> persona_override = None \<and> voice_override = None
        then (Inl UpdateError, s)
        else
          (case fetch_my_settings self s of
             (Inl e, s1) \<Rightarrow> (Inl e, s1)
           | (Inr settings, s1) \<Rightarrow>
               (case apply_default_persona_id default_persona_id settings of
                  Inl e \<Rightarrow> (Inl e, s1)
                | Inr settings1 \<Rightarrow>
                    (case apply_persona_override persona_override character_id settings1 of
                       Inl e \<Rightarrow> (Inl e, s1)
                     | Inr settings2 \<Rightarrow>
                         (case do_request self
                                 (post_request self
                                    ''https://plus.character.ai/chat/user/update_settings/''
                                    (BodyDumps settings2)) s1 of
                            (request, s2) \<Rightarrow>
                              if status_code request = 200 then
                                (case py_get (json request) ''success'' (JBool False) of
                                   Inl e \<Rightarrow> (Inl e, s2)
                                 | Inr success \<Rightarrow>
                                     if truthy success
                                     then (py_get (json request) ''settings'' JNull, s2)
                                     else (Inl UpdateError, s2))
                              else (Inl UpdateError, s2))))))"

section \<open>Account editing\<close>

definition new_account_info :: "string \<Rightarrow> string \<Rightarrow> string \<Rightarrow> string \<Rightarrow> (string \<times> jvalue) list" where
  "new_account_info name username bio avatar_rel_path =
     (let info =
        [(''avatar_type'', JStr (if avatar_rel_path \<noteq> [] then ''UPLOADED'' else ''DEFAULT'')),
         (''bio'', JStr bio),
         (''name'', JStr name),
         (''username'', JStr username)]
      in if avatar_rel_path \<noteq> [] then dict_set info ''avatar_rel_path'' (JStr avatar_rel_path)
         else info)"

definition edit_account ::
  "'w account_methods \<Rightarrow> string \<Rightarrow> string \<Rightarrow> string \<Rightarrow> string \<Rightarrow> 'w session
     \<Rightarrow> (error + bool) \<times> 'w session" where
  "edit_account self name username bio avatar_rel_path s =
     (if length username < 2 \<or> length name > 20 then (Inl InvalidArgumentError, s)
      else if length name < 2 \<or> length name > 50 then (Inl InvalidArgumentError, s)
      else if length bio > 500 then (Inl InvalidArgumentError, s)
      else
        (case do_request self
                (post_request self ''https://plus.character.ai/chat/user/update/''
                   (BodyDumps (JObj (new_account_info name username bio avatar_rel_path)))) s of
           (request, s') \<Rightarrow>
             if status_code request = 200 then
               (case py_get (json request) ''status'' (JStr []) of
                  Inl e \<Rightarrow> (Inl e, s')
                | Inr status \<Rightarrow>
                    if status = JStr ''OK'' then (Inr True, s') else (Inl EditError, s'))
             else (Inl EditError, s')))"

section \<open>Personas\<close>

text \<open>
  Modelled from the spec: the value objects \<^verbatim>\<open>Persona\<close> and \<^verbatim>\<open>Avatar\<close> (their classes
  are not among the sources). The spec lists for a persona its identifier, name,
  definition text, greeting, avatar reference, author username and visibility. The
  attributes hold what the constructor read from the raw JSON, so they are JSON values;
  \<open>persona_avatar\<close> is \<open>None\<close> for a persona without avatar, and \<open>get_file_name\<close> is
  the one method the module calls on an avatar.
\<close>

record avatar =
  get_file_name :: jvalue

record persona =
  persona_id_of :: jvalue
  persona_name :: jvalue
  persona_definition :: jvalue
  persona_greeting :: jvalue
  persona_avatar :: "avatar option"
  author_username :: jvalue
  persona_visibility :: jvalue

definition old_avatar_file_name :: "persona \<Rightarrow> jvalue" where
  "old_avatar_file_name old_persona =
     (case persona_avatar old_persona of None \<Rightarrow> JStr [] | Some a \<Rightarrow> get_file_name a)"

text \<open>\<^verbatim>\<open>arg or old\<close> for a string argument: the argument unless it is empty.\<close>

definition str_or :: "string \<Rightarrow> jvalue \<Rightarrow> jvalue" where
  "str_or arg old = (if arg \<noteq> [] then JStr arg else old)"

text \<open>
  The payload of \<^verbatim>\<open>edit_persona\<close>: the dictionary literal, then the two avatar keys
  overwritten when \<^verbatim>\<open>avatar_rel_path\<close> is not empty.
\<close>

definition edit_persona_payload ::
  "client \<Rightarrow> string \<Rightarrow> string \<Rightarrow> string \<Rightarrow> string \<Rightarrow> persona \<Rightarrow> (string \<times> jvalue) list" where
  "edit_persona_payload cl persona_id name defn avatar_rel_path old_persona =
     (let payload =
        [(''avatar_file_name'', old_avatar_file_name old_persona),
         (''avatar_rel_path'', old_avatar_file_name old_persona),
         (''copyable'', JBool False),
         (''default_voice_id'', JStr []),
         (''definition'', str_or defn (persona_definition old_persona)),
         (''description'', JStr ''This is my persona.''),
         (''enabled'', JBool False),
         (''external_id'', JStr persona_id),
         (''greeting'', JStr ''Hello! This is my persona''),
         (''img_gen_enabled'', JBool False),
         (''is_persona'', JBool True),
         (''name'', str_or name (persona_name old_persona)),
         (''participant__name'', str_or name (persona_name old_persona)),
         (''participant__num_interactions'', JInt 0),
         (''title'', JStr name),
         (''user__id'', JStr (get_account_id cl)),
         (''user__username'', author_username old_persona),
         (''visibility'', JStr ''PRIVATE'')]
      in if avatar_rel_path \<noteq> []
         then dict_set (dict_set payload ''avatar_file_name'' (JStr avatar_rel_path))
                ''avatar_rel_path'' (JStr avatar_rel_path)
         else payload)"

text \<open>
  The response check shared by \<^verbatim>\<open>edit_persona\<close> and \<^verbatim>\<open>delete_persona\<close>:
  \<^verbatim>\<open>response.get("status", None) == "OK" and response.get("persona", None) is not None\<close>.
\<close>

definition persona_response_ok :: "jvalue \<Rightarrow> error + bool" where
  "persona_response_ok resp =
     (case py_get resp ''status'' JNull of
        Inl e \<Rightarrow> Inl e
      | Inr st \<Rightarrow>
          if st = JStr ''OK'' then
            (case py_get resp ''persona'' JNull of
               Inl e \<Rightarrow> Inl e
             | Inr p \<Rightarrow> Inr (p \<noteq> JNull))
          else Inr False)"

definition edit_persona ::
  "(jvalue \<Rightarrow> error + persona) \<Rightarrow> 'w account_methods \<Rightarrow> string \<Rightarrow> string \<Rightarrow> string \<Rightarrow> string
     \<Rightarrow> 'w session \<Rightarrow> (error + persona) \<times> 'w session" where
  "edit_persona Persona self persona_id name defn avatar_rel_path s =
     (if name \<noteq> [] \<and> (length name < 3 \<or> length name > 20) then (Inl InvalidArgumentError, s)
      else if defn \<noteq> [] \<and> length defn > 728 then (Inl InvalidArgumentError, s)
      else
        (case fetch_my_persona Persona self persona_id s of
           (Inl e, s1) \<Rightarrow> (Inl EditError, s1)
         | (Inr old_persona, s1) \<Rightarrow>
             (case do_request self
                     (post_request self ''https://plus.character.ai/chat/persona/update/''
                        (BodyDumps (JObj (edit_persona_payload (client self) persona_id name defn
                                            avatar_rel_path old_persona)))) s1 of
                (request, s2) \<Rightarrow>
                  if status_code request = 200 then
                    (case persona_response_ok (json request) of
                       Inl e \<Rightarrow> (Inl e, s2)
                     | Inr ok \<Rightarrow>
                         if ok then
                           (case py_get (json request) ''persona'' JNull of
                              Inl e \<Rightarrow> (Inl e, s2)
                            | Inr p \<Rightarrow> (Persona p, s2))
                         else
                           (case py_get (json request) ''error'' (JStr []) of
                              Inl e \<Rightarrow> (Inl e, s2)
                            | Inr err \<Rightarrow> (Inl EditError, s2)))
                  else (Inl EditError, s2))))"

text \<open>The payload of \<^verbatim>\<open>delete_persona\<close>: one dictionary literal.\<close>

definition delete_persona_payload :: "client \<Rightarrow> string \<Rightarrow> persona \<Rightarrow> (string \<times> jvalue) list" where
  "delete_persona_payload cl persona_id old_persona =
     [(''archived'', JBool True),
      (''avatar_file_name'', old_avatar_file_name old_persona),
      (''copyable'', JBool False),
      (''default_voice_id'', JStr []),
      (''definition'', persona_definition old_persona),
      (''description'', JStr ''This is my persona.''),
      (''external_id'', JStr persona_id),
      (''greeting'', JStr ''Hello! This is my persona''),
      (''img_gen_enabled'', JBool False),
      (''is_persona'', JBool True),
      (''name'', persona_name old_persona),
      (''participant__name'', persona_name old_persona),
      (''participant__num_interactions'', JInt 0),
      (''title'', persona_name old_persona),
      (''user__id'', JStr (get_account_id cl)),
      (''user__username'', author_username old_persona),
      (''visibility'', JStr ''PRIVATE'')]"

definition delete_persona ::
  "(jvalue \<Rightarrow> error + persona) \<Rightarrow> 'w account_methods \<Rightarrow> string \<Rightarrow> 'w session
     \<Rightarrow> (error + bool) \<times> 'w session" where
  "delete_persona Persona self persona_id s =
     (case fetch_my_persona Persona self persona_id s of
        (Inl e, s1) \<Rightarrow> (Inl DeleteError, s1)
      | (Inr old_persona, s1) \<Rightarrow>
          (case do_request self
                  (post_request self ''https://plus.character.ai/chat/persona/update/''
                     (BodyDumps (JObj (delete_persona_payload (client self) persona_id old_persona)))) s1 of
             (request, s2) \<Rightarrow>
               if status_code request = 200 then
                 (case persona_response_ok (json request) of
                    Inl e \<Rightarrow> (Inl e, s2)
                  | Inr ok \<Rightarrow>
                      if ok then (Inr True, s2)
                      else
                        (case py_get (json request) ''error'' (JStr []) of
                           Inl e \<Rightarrow> (Inl e, s2)
                         | Inr err \<Rightarrow> (Inl DeleteError, s2)))
               else (Inl DeleteError, s2)))"

section \<open>Default persona, persona override and voice override\<close>

text \<open>
  \<^verbatim>\<open>try: ... self.__update_settings(...); return True  except Exception: raise SetError\<close>.
  An argument \<^verbatim>\<open>None\<close> is replaced by the empty string first.
\<close>

definition none_to_empty :: "string option \<Rightarrow> string" where
  "none_to_empty persona_id = (case persona_id of None \<Rightarrow> [] | Some p \<Rightarrow> p)"

definition set_default_persona ::
  "'w account_methods \<Rightarrow> string option \<Rightarrow> 'w session \<Rightarrow> (error + bool) \<times> 'w session" where
  "set_default_persona self persona_id s =
     (case update_settings self [(''default_persona_id'', none_to_empty persona_id)] s of
        (Inl e, s') \<Rightarrow> (Inl SetError, s')
      | (Inr settings, s') \<Rightarrow> (Inr True, s'))"

definition unset_default_persona ::
  "'w account_methods \<Rightarrow> 'w session \<Rightarrow> (error + bool) \<times> 'w session" where
  "unset_default_persona self s = set_default_persona self None s"

definition set_persona ::
  "'w account_methods \<Rightarrow> string \<Rightarrow> string option \<Rightarrow> 'w session \<Rightarrow> (error + bool) \<times> 'w session" where
  "set_persona self character_id persona_id s =
     (case update_settings self
             [(''persona_override'', none_to_empty persona_id), (''character_id'', character_id)] s of
        (Inl e, s') \<Rightarrow> (Inl SetError, s')
      | (Inr settings, s') \<Rightarrow> (Inr True, s'))"

definition unset_persona ::
  "'w account_methods \<Rightarrow> string \<Rightarrow> 'w session \<Rightarrow> (error + bool) \<times> 'w session" where
  "unset_persona self character_id s = set_persona self character_id None s"

text \<open>
  \<^verbatim>\<open>set_voice\<close>: \<^verbatim>\<open>voice_id\<close> is a string or \<^verbatim>\<open>None\<close>; it is true as a condition when
  it is a non-empty string.
\<close>

definition voice_given :: "string option \<Rightarrow> bool" where
  "voice_given voice_id = (case voice_id of None \<Rightarrow> False | Some v \<Rightarrow> v \<noteq> [])"

definition voice_override_url :: "string \<Rightarrow> string \<Rightarrow> string" where
  "voice_override_url character_id method_name =
     ''https://plus.character.ai/chat/character/'' @ character_id @ ''/voice_override/''
       @ method_name @ ''/''"

definition set_voice ::
  "'w account_methods \<Rightarrow> string \<Rightarrow> string option \<Rightarrow> 'w session \<Rightarrow> (error + bool) \<times> 'w session" where
  "set_voice self character_id voice_id s =
     (let method_name = (if voice_given voice_id then ''update'' else ''delete'') in
      case do_request self
             (post_request self (voice_override_url character_id method_name)
                (if voice_given voice_id
                 then BodyDumps (JObj [(''voice_id'', JStr (none_to_empty voice_id))])
                 else BodyNone)) s of
        (request, s') \<Rightarrow>
          if status_code request = 200 then
            (case py_get (json request) ''success'' (JBool False) of
               Inl e \<Rightarrow> (Inl e, s')
             | Inr success \<Rightarrow> if truthy success then (Inr True, s') else (Inl SetError, s'))
          else (Inl SetError, s'))"

definition unset_voice ::
  "'w account_methods \<Rightarrow> string \<Rightarrow> 'w session \<Rightarrow> (error + bool) \<times> 'w session" where
  "unset_voice self character_id s = set_voice self character_id None s"

section \<open>Vocabulary of the statements\<close>

text \<open>
  The response the requester gives to a request in the current state of the server, and
  the session after that request.
\<close>

definition response_to :: "'w account_methods \<Rightarrow> 'w session \<Rightarrow> request \<Rightarrow> response" where
  "response_to self s r = fst (requester self (world s) r)"

definition after_request :: "'w account_methods \<Rightarrow> 'w session \<Rightarrow> request \<Rightarrow> 'w session" where
  "after_request self s r = \<lparr>world = snd (requester self (world s) r), calls = calls s @ [r]\<rparr>"

text \<open>\<open>answers self s u code j\<close>: the GET of \<open>u\<close> is answered with status \<open>code\<close> and body \<open>j\<close>.\<close>

definition answers :: "'w account_methods \<Rightarrow> 'w session \<Rightarrow> string \<Rightarrow> int \<Rightarrow> jvalue \<Rightarrow> bool" where
  "answers self s u code j = (response_to self s (get_request self u) = \<lparr>status_code = code, json = j\<rparr>)"

text \<open>Whether a decoded body is a JSON object, the one kind of value that has \<^verbatim>\<open>get\<close>.\<close>

fun is_object :: "jvalue \<Rightarrow> bool" where
  "is_object (JObj kvs) = True"
| "is_object j = False"

text \<open>The endpoints, as the methods spell them.\<close>

definition user_url :: string where
  "user_url = ''https://plus.character.ai/chat/user/''"

definition settings_url :: string where
  "settings_url = ''https://plus.character.ai/chat/user/settings/''"

definition followers_url :: string where
  "followers_url = ''https://plus.character.ai/chat/user/followers/''"

definition following_url :: string where
  "following_url = ''https://plus.character.ai/chat/user/following/''"

definition persona_url :: "string \<Rightarrow> string" where
  "persona_url persona_id = ''https://plus.character.ai/chat/persona/?id='' @ persona_id"

definition personas_url :: string where
  "personas_url = ''https://plus.character.ai/chat/personas/?force_refresh=1''"

definition characters_url :: string where
  "characters_url = ''https://plus.character.ai/chat/characters/?scope=user''"

definition upvoted_url :: string where
  "upvoted_url = ''https://plus.character.ai/chat/user/characters/upvoted/''"

definition voices_url :: string where
  "voices_url = ''https://neo.character.ai/multimodal/api/v1/voices/user''"

definition update_settings_url :: string where
  "update_settings_url = ''https://plus.character.ai/chat/user/update_settings/''"

definition account_update_url :: string where
  "account_update_url = ''https://plus.character.ai/chat/user/update/''"

definition persona_update_url :: string where
  "persona_update_url = ''https://plus.character.ai/chat/persona/update/''"

subsection \<open>Requester doubles for the examples\<close>

text \<open>A requester that answers every request with the same status and body.\<close>

definition canned_methods :: "int \<Rightarrow> jvalue \<Rightarrow> unit account_methods" where
  "canned_methods code j =
     \<lparr>client = \<lparr>get_headers = [(''Authorization'', ''Token t'')], get_account_id = ''42''\<rparr>,
      requester = (\<lambda>w r. (\<lparr>status_code = code, json = j\<rparr>, w))\<rparr>"

definition fresh :: "unit session" where
  "fresh = \<lparr>world = (), calls = []\<rparr>"

definition sample_body :: "(string \<times> jvalue) list" where
  "sample_body =
     [(''user'', JObj [(''user'', JObj [(''username'', JStr ''alice'')])]),
      (''followers'', JArr [JStr ''bob'']),
      (''following'', JArr []),
      (''persona'', JObj [(''name'', JStr ''Alice'')]),
      (''personas'', JArr [JObj [(''name'', JStr ''Alice'')], JObj [(''name'', JStr ''Ally'')]]),
      (''characters'', JArr [JObj [(''title'', JStr ''Bot'')]]),
      (''voices'', JArr [])]"

text \<open>
  A requester whose server state is the stored settings: the settings endpoint returns
  them, the update endpoint stores the posted settings and reports success.
\<close>

definition settings_store :: "jvalue requester" where
  "settings_store w r =
     (if url r = settings_url \<and> http_method r = None then (\<lparr>status_code = 200, json = w\<rparr>, w)
      else if url r = update_settings_url \<and> http_method r = Some ''POST'' then
        (case body r of
           BodyDumps p \<Rightarrow>
             (\<lparr>status_code = 200, json = JObj [(''success'', JBool True), (''settings'', p)]\<rparr>, p)
         | _ \<Rightarrow> (\<lparr>status_code = 400, json = JNull\<rparr>, w))
      else (\<lparr>status_code = 404, json = JNull\<rparr>, w))"

definition store_methods :: "jvalue account_methods" where
  "store_methods =
     \<lparr>client = \<lparr>get_headers = [(''Authorization'', ''Token t'')], get_account_id = ''42''\<rparr>,
      requester = settings_store\<rparr>"

definition store_session :: "jvalue \<Rightarrow> jvalue session" where
  "store_session settings = \<lparr>world = settings, calls = []\<rparr>"

subsection \<open>A persona constructor and a persona for the examples\<close>

text \<open>
  A stand-in for the \<^verbatim>\<open>Persona\<close> constructor in the examples: it reads the attributes
  from the raw object by name and raises \<^verbatim>\<open>AttributeError\<close> on anything that is not an
  object.
\<close>

definition persona_double :: "jvalue \<Rightarrow> error + persona" where
  "persona_double raw =
     (case raw of
        JObj kvs \<Rightarrow>
          Inr \<lparr>persona_id_of = dict_get kvs ''external_id'' JNull,
               persona_name = dict_get kvs ''name'' JNull,
               persona_definition = dict_get kvs ''definition'' JNull,
               persona_greeting = dict_get kvs ''greeting'' JNull,
               persona_avatar =
                 (if truthy (dict_get kvs ''avatar_file_name'' JNull)
                  then Some \<lparr>get_file_name = dict_get kvs ''avatar_file_name'' JNull\<rparr>
                  else None),
               author_username = dict_get kvs ''user__username'' JNull,
               persona_visibility = dict_get kvs ''visibility'' JNull\<rparr>
      | _ \<Rightarrow> Inl AttributeError)"

definition sample_persona_json :: jvalue where
  "sample_persona_json =
     JObj [(''external_id'', JStr ''p1''),
           (''name'', JStr ''Alice''),
           (''definition'', JStr ''A curious reader.''),
           (''greeting'', JStr ''Hi''),
           (''avatar_file_name'', JStr ''a.png''),
           (''user__username'', JStr ''alice01''),
           (''visibility'', JStr ''PRIVATE'')]"

definition sample_persona :: persona where
  "sample_persona =
     \<lparr>persona_id_of = JStr ''p1'',
      persona_name = JStr ''Alice'',
      persona_definition = JStr ''A curious reader.'',
      persona_greeting = JStr ''Hi'',
      persona_avatar = Some \<lparr>get_file_name = JStr ''a.png''\<rparr>,
      author_username = JStr ''alice01'',
      persona_visibility = JStr ''PRIVATE''\<rparr>"

definition persona_server :: "unit account_methods" where
  "persona_server = canned_methods 200 (JObj [(''status'', JStr ''OK''), (''persona'', sample_persona_json)])"

text \<open>
  A requester that answers every GET with the sample persona and every other request
  with the given status and body.
\<close>

definition persona_server_replying :: "int \<Rightarrow> jvalue \<Rightarrow> unit account_methods" where
  "persona_server_replying code j =
     \<lparr>client = \<lparr>get_headers = [(''Authorization'', ''Token t'')], get_account_id = ''42''\<rparr>,
      requester =
        (\<lambda>w r. if http_method r = None
               then (\<lparr>status_code = 200, json = JObj [(''persona'', sample_persona_json)]\<rparr>, w)
               else (\<lparr>status_code = code, json = j\<rparr>, w))\<rparr>"

definition sample_delete_payload :: "(string \<times> jvalue) list" where
  "sample_delete_payload =
     [(''archived'', JBool True),
      (''avatar_file_name'', JStr ''a.png''),
      (''copyable'', JBool False),
      (''default_voice_id'', JStr []),
      (''definition'', JStr ''A curious reader.''),
      (''description'', JStr ''This is my persona.''),
      (''external_id'', JStr ''p1''),
      (''greeting'', JStr ''Hello! This is my persona''),
      (''img_gen_enabled'', JBool False),
      (''is_persona'', JBool True),
      (''name'', JStr ''Alice''),
      (''participant__name'', JStr ''Alice''),
      (''participant__num_interactions'', JInt 0),
      (''title'', JStr ''Alice''),
      (''user__id'', JStr ''42''),
      (''user__username'', JStr ''alice01''),
      (''visibility'', JStr ''PRIVATE'')]"

subsection \<open>The request of the voice override\<close>

text \<open>
  The request \<^verbatim>\<open>set_voice\<close> issues for a non-empty voice id (\<open>Some v\<close>) and the one
  \<^verbatim>\<open>unset_voice\<close> issues (\<open>None\<close>).
\<close>

definition voice_request :: "'w account_methods \<Rightarrow> string \<Rightarrow> string option \<Rightarrow> request" where
  "voice_request self character_id voice_id =
     (case voice_id of
        Some v \<Rightarrow>
          post_request self
            (''https://plus.character.ai/chat/character/'' @ character_id @ ''/voice_override/update/'')
            (BodyDumps (JObj [(''voice_id'', JStr v)]))
      | None \<Rightarrow>
          post_request self
            (''https://plus.character.ai/chat/character/'' @ character_id @ ''/voice_override/delete/'')
            BodyNone)"

section \<open>Basic facts\<close>

lemma do_request_eq:
  "do_request self r s = (response_to self s r, after_request self s r)"
  by (simp add: do_request_def response_to_def after_request_def split: prod.split)

lemma calls_after_request [simp]: "calls (after_request self s r) = calls s @ [r]"
  by (simp add: after_request_def)

lemma py_get_Inl: "py_get j k d = Inl e \<Longrightarrow> e = AttributeError"
  by (cases j) auto

lemma py_get_not_object: "\<not> is_object j \<Longrightarrow> py_get j k d = Inl AttributeError"
  by (cases j) auto

lemma construct_all_map:
  "(\<forall>x \<in> set xs. ctor x = Inr (g x)) \<Longrightarrow> construct_all ctor xs = Inr (map g xs)"
  by (induction xs) auto

lemma fetch_list_not_200:
  "answers self s u code j \<Longrightarrow> code \<noteq> 200 \<Longrightarrow> fst (fetch_list u field ctor self s) = Inl FetchError"
  by (simp add: fetch_list_def do_request_eq answers_def)

lemma fetch_list_present:
  "answers self s u 200 (JObj kvs) \<Longrightarrow> map_of kvs field = Some (JArr xs) \<Longrightarrow>
   (\<forall>x \<in> set xs. ctor x = Inr (g x)) \<Longrightarrow>
   fst (fetch_list u field ctor self s) = Inr (map g xs)"
  by (simp add: fetch_list_def do_request_eq answers_def dict_get_def construct_all_map)

lemma fetch_list_absent:
  "answers self s u 200 (JObj kvs) \<Longrightarrow> map_of kvs field = None \<Longrightarrow>
   fst (fetch_list u field ctor self s) = Inr []"
  by (simp add: fetch_list_def do_request_eq answers_def dict_get_def)

lemma fetch_me_not_200:
  "answers self s ''https://plus.character.ai/chat/user/'' code j \<Longrightarrow> code \<noteq> 200 \<Longrightarrow>
   fst (fetch_me Account self s) = Inl FetchError"
  by (simp add: fetch_me_def do_request_eq answers_def)

lemma fetch_me_present:
  "answers self s ''https://plus.character.ai/chat/user/'' 200 (JObj kvs) \<Longrightarrow>
   map_of kvs ''user'' = Some (JObj u) \<Longrightarrow>
   fst (fetch_me Account self s) = Account (dict_get u ''user'' JNull)"
  by (simp add: fetch_me_def do_request_eq answers_def dict_get_def)

lemma fetch_my_settings_cases:
  "answers self s ''https://plus.character.ai/chat/user/settings/'' code j \<Longrightarrow>
   fst (fetch_my_settings self s) = (if code = 200 then Inr j else Inl FetchError)"
  by (simp add: fetch_my_settings_def do_request_eq answers_def)

lemma fetch_my_followers_cases:
  "answers self s ''https://plus.character.ai/chat/user/followers/'' code j \<Longrightarrow>
   (code \<noteq> 200 \<longrightarrow> fst (fetch_my_followers self s) = Inl FetchError) \<and>
   (code = 200 \<longrightarrow> j = JObj kvs \<longrightarrow>
      fst (fetch_my_followers self s)
        = Inr (case map_of kvs ''followers'' of None \<Rightarrow> JArr [] | Some v \<Rightarrow> v))"
  by (simp add: fetch_my_followers_def do_request_eq answers_def dict_get_def)

lemma fetch_my_following_cases:
  "answers self s ''https://plus.character.ai/chat/user/following/'' code j \<Longrightarrow>
   (code \<noteq> 200 \<longrightarrow> fst (fetch_my_following self s) = Inl FetchError) \<and>
   (code = 200 \<longrightarrow> j = JObj kvs \<longrightarrow>
      fst (fetch_my_following self s)
        = Inr (case map_of kvs ''following'' of None \<Rightarrow> JArr [] | Some v \<Rightarrow> v))"
  by (simp add: fetch_my_following_def do_request_eq answers_def dict_get_def)

lemma fetch_my_persona_cases:
  "answers self s (''https://plus.character.ai/chat/persona/?id='' @ persona_id) code j \<Longrightarrow>
   (code \<noteq> 200 \<longrightarrow> fst (fetch_my_persona Persona self persona_id s) = Inl FetchError) \<and>
   (code = 200 \<longrightarrow> j = JObj kvs \<longrightarrow> map_of kvs ''persona'' = Some p \<longrightarrow> truthy p \<longrightarrow>
      fst (fetch_my_persona Persona self persona_id s) = Persona p) \<and>
   (code = 200 \<longrightarrow> j = JObj kvs \<longrightarrow> (map_of kvs ''persona'' = None \<or> map_of kvs ''persona'' = Some JNull) \<longrightarrow>
      fst (fetch_my_persona Persona self persona_id s) = Inl FetchError)"
  by (auto simp add: fetch_my_persona_def do_request_eq answers_def dict_get_def)


lemmas fetch_urls = user_url_def settings_url_def followers_url_def following_url_def
  persona_url_def personas_url_def characters_url_def upvoted_url_def voices_url_def

lemma answers_canned: "answers (canned_methods code j) s u code' j' \<longleftrightarrow> code' = code \<and> j' = j"
  by (auto simp: answers_def response_to_def canned_methods_def)

lemma map_of_dict_set: "map_of (dict_set kvs k v) = (map_of kvs)(k \<mapsto> v)"
  by (induction kvs) (auto simp: fun_eq_iff)

lemma dict_set_same: "map_of kvs k = Some v \<Longrightarrow> dict_set kvs k v = kvs"
  by (induction kvs) (auto split: if_splits)

lemma dict_set_idem: "dict_set (dict_set kvs k v) k v = dict_set kvs k v"
  by (induction kvs) auto

lemma dict_get_dict_set: "dict_get (dict_set kvs k v) k d = v"
  by (simp add: dict_get_def map_of_dict_set)

lemma answers_store:
  "answers store_methods (store_session w) settings_url 200 w"
  by (simp add: answers_def response_to_def store_methods_def settings_store_def store_session_def
      get_request_def)

section \<open>The fetch operations\<close>

text \<open>
  Claim C2. Every fetch operation raises \<open>FetchError\<close> when the status of the response is
  not 200. On a 200 response whose body is a JSON object: \<open>fetch_me\<close> constructs the
  account from the inner \<open>user\<close> object; \<open>fetch_my_settings\<close> returns the body;
  \<open>fetch_my_followers\<close> and \<open>fetch_my_following\<close> return the named field, or the empty
  list when it is absent; \<open>fetch_my_persona\<close> constructs the persona from a \<open>persona\<close>
  field that counts as true and raises \<open>FetchError\<close> when the field is missing or null;
  the four list operations map every item of the named array through their constructor
  (an empty array gives the empty list and no error) and return the empty list when the
  field is absent.
\<close>

theorem fetch_operations:
  fixes Account :: "jvalue \<Rightarrow> error + 'a"
    and Persona :: "jvalue \<Rightarrow> error + 'p"
    and CharacterShort :: "jvalue \<Rightarrow> error + 'c"
    and Voice :: "jvalue \<Rightarrow> error + 'v"
  shows
    "(code \<noteq> 200 \<longrightarrow>
        (answers self s user_url code j \<longrightarrow> fst (fetch_me Account self s) = Inl FetchError) \<and>
        (answers self s settings_url code j \<longrightarrow> fst (fetch_my_settings self s) = Inl FetchError) \<and>
        (answers self s followers_url code j \<longrightarrow> fst (fetch_my_followers self s) = Inl FetchError) \<and>
        (answers self s following_url code j \<longrightarrow> fst (fetch_my_following self s) = Inl FetchError) \<and>
        (answers self s (persona_url persona_id) code j \<longrightarrow>
           fst (fetch_my_persona Persona self persona_id s) = Inl FetchError) \<and>
        (answers self s personas_url code j \<longrightarrow> fst (fetch_my_personas Persona self s) = Inl FetchError) \<and>
        (answers self s characters_url code j \<longrightarrow>
           fst (fetch_my_characters CharacterShort self s) = Inl FetchError) \<and>
        (answers self s upvoted_url code j \<longrightarrow>
           fst (fetch_my_upvoted_characters CharacterShort self s) = Inl FetchError) \<and>
        (answers self s voices_url code j \<longrightarrow> fst (fetch_my_voices Voice self s) = Inl FetchError))
     \<and> (answers self s user_url 200 (JObj kvs) \<and> map_of kvs ''user'' = Some (JObj u) \<longrightarrow>
          fst (fetch_me Account self s) = Account (dict_get u ''user'' JNull))
     \<and> (answers self s settings_url 200 j \<longrightarrow> fst (fetch_my_settings self s) = Inr j)
     \<and> (answers self s followers_url 200 (JObj kvs) \<longrightarrow>
          fst (fetch_my_followers self s)
            = Inr (case map_of kvs ''followers'' of None \<Rightarrow> JArr [] | Some v \<Rightarrow> v))
     \<and> (answers self s following_url 200 (JObj kvs) \<longrightarrow>
          fst (fetch_my_following self s)
            = Inr (case map_of kvs ''following'' of None \<Rightarrow> JArr [] | Some v \<Rightarrow> v))
     \<and> (answers self s (persona_url persona_id) 200 (JObj kvs) \<longrightarrow>
          (map_of kvs ''persona'' = Some p \<and> truthy p \<longrightarrow>
             fst (fetch_my_persona Persona self persona_id s) = Persona p) \<and>
          (map_of kvs ''persona'' = None \<or> map_of kvs ''persona'' = Some JNull \<longrightarrow>
             fst (fetch_my_persona Persona self persona_id s) = Inl FetchError))
     \<and> (answers self s personas_url 200 (JObj kvs) \<longrightarrow>
          (map_of kvs ''personas'' = Some (JArr xs) \<and> (\<forall>x \<in> set xs. Persona x = Inr (gp x)) \<longrightarrow>
             fst (fetch_my_personas Persona self s) = Inr (map gp xs)) \<and>
          (map_of kvs ''personas'' = None \<longrightarrow> fst (fetch_my_personas Persona self s) = Inr []))
     \<and> (answers self s characters_url 200 (JObj kvs) \<longrightarrow>
          (map_of kvs ''characters'' = Some (JArr xs) \<and> (\<forall>x \<in> set xs. CharacterShort x = Inr (gc x)) \<longrightarrow>
             fst (fetch_my_characters CharacterShort self s) = Inr (map gc xs)) \<and>
          (map_of kvs ''characters'' = None \<longrightarrow> fst (fetch_my_characters CharacterShort self s) = Inr []))
     \<and> (answers self s upvoted_url 200 (JObj kvs) \<longrightarrow>
          (map_of kvs ''characters'' = Some (JArr xs) \<and> (\<forall>x \<in> set xs. CharacterShort x = Inr (gc x)) \<longrightarrow>
             fst (fetch_my_upvoted_characters CharacterShort self s) = Inr (map gc xs)) \<and>
          (map_of kvs ''characters'' = None \<longrightarrow>
             fst (fetch_my_upvoted_characters CharacterShort self s) = Inr []))
     \<and> (answers self s voices_url 200 (JObj kvs) \<longrightarrow>
          (map_of kvs ''voices'' = Some (JArr xs) \<and> (\<forall>x \<in> set xs. Voice x = Inr (gv x)) \<longrightarrow>
             fst (fetch_my_voices Voice self s) = Inr (map gv xs)) \<and>
          (map_of kvs ''voices'' = None \<longrightarrow> fst (fetch_my_voices Voice self s) = Inr []))"
proof (intro conjI impI)
  show "fst (fetch_me Account self s) = Inl FetchError"
    if "code \<noteq> 200" "answers self s user_url code j"
    using that fetch_me_not_200 by (simp add: fetch_urls)
  show "fst (fetch_my_settings self s) = Inl FetchError"
    if "code \<noteq> 200" "answers self s settings_url code j"
    using that fetch_my_settings_cases[of self s code j] by (simp add: fetch_urls)
  show "fst (fetch_my_followers self s) = Inl FetchError"
    if "code \<noteq> 200" "answers self s followers_url code j"
    using that fetch_my_followers_cases[of self s code j] by (simp add: fetch_urls)
  show "fst (fetch_my_following self s) = Inl FetchError"
    if "code \<noteq> 200" "answers self s following_url code j"
    using that fetch_my_following_cases[of self s code j] by (simp add: fetch_urls)
  show "fst (fetch_my_persona Persona self persona_id s) = Inl FetchError"
    if "code \<noteq> 200" "answers self s (persona_url persona_id) code j"
    using that fetch_my_persona_cases[of self s persona_id code j] by (simp add: fetch_urls)
  show "fst (fetch_my_personas Persona self s) = Inl FetchError"
    if "code \<noteq> 200" "answers self s personas_url code j"
    using that by (simp add: fetch_urls fetch_my_personas_def fetch_list_not_200)
  show "fst (fetch_my_characters CharacterShort self s) = Inl FetchError"
    if "code \<noteq> 200" "answers self s characters_url code j"
    using that by (simp add: fetch_urls fetch_my_characters_def fetch_list_not_200)
  show "fst (fetch_my_upvoted_characters CharacterShort self s) = Inl FetchError"
    if "code \<noteq> 200" "answers self s upvoted_url code j"
    using that by (simp add: fetch_urls fetch_my_upvoted_characters_def fetch_list_not_200)
  show "fst (fetch_my_voices Voice self s) = Inl FetchError"
    if "code \<noteq> 200" "answers self s voices_url code j"
    using that by (simp add: fetch_urls fetch_my_voices_def fetch_list_not_200)
  show "fst (fetch_me Account self s) = Account (dict_get u ''user'' JNull)"
    if "answers self s user_url 200 (JObj kvs) \<and> map_of kvs ''user'' = Some (JObj u)"
    using that fetch_me_present[of self s kvs u] by (simp add: fetch_urls)
  show "fst (fetch_my_settings self s) = Inr j"
    if "answers self s settings_url 200 j"
    using that fetch_my_settings_cases[of self s 200 j] by (simp add: fetch_urls)
  show "fst (fetch_my_followers self s)
          = Inr (case map_of kvs ''followers'' of None \<Rightarrow> JArr [] | Some v \<Rightarrow> v)"
    if "answers self s followers_url 200 (JObj kvs)"
    using that fetch_my_followers_cases[of self s 200 "JObj kvs" kvs] by (simp add: fetch_urls)
  show "fst (fetch_my_following self s)
          = Inr (case map_of kvs ''following'' of None \<Rightarrow> JArr [] | Some v \<Rightarrow> v)"
    if "answers self s following_url 200 (JObj kvs)"
    using that fetch_my_following_cases[of self s 200 "JObj kvs" kvs] by (simp add: fetch_urls)
  show "fst (fetch_my_persona Persona self persona_id s) = Persona p"
    if "answers self s (persona_url persona_id) 200 (JObj kvs)"
      "map_of kvs ''persona'' = Some p \<and> truthy p"
    using that fetch_my_persona_cases[of self s persona_id 200 "JObj kvs" Persona kvs p]
    by (simp add: fetch_urls)
  show "fst (fetch_my_persona Persona self persona_id s) = Inl FetchError"
    if "answers self s (persona_url persona_id) 200 (JObj kvs)"
      "map_of kvs ''persona'' = None \<or> map_of kvs ''persona'' = Some JNull"
    using that fetch_my_persona_cases[of self s persona_id 200 "JObj kvs" Persona kvs p]
    by (simp add: fetch_urls)
  show "fst (fetch_my_personas Persona self s) = Inr (map gp xs)"
    if "answers self s personas_url 200 (JObj kvs)"
      "map_of kvs ''personas'' = Some (JArr xs) \<and> (\<forall>x \<in> set xs. Persona x = Inr (gp x))"
    using that by (simp add: fetch_urls fetch_my_personas_def fetch_list_present)
  show "fst (fetch_my_personas Persona self s) = Inr []"
    if "answers self s personas_url 200 (JObj kvs)" "map_of kvs ''personas'' = None"
    using that by (simp add: fetch_urls fetch_my_personas_def fetch_list_absent)
  show "fst (fetch_my_characters CharacterShort self s) = Inr (map gc xs)"
    if "answers self s characters_url 200 (JObj kvs)"
      "map_of kvs ''characters'' = Some (JArr xs) \<and> (\<forall>x \<in> set xs. CharacterShort x = Inr (gc x))"
    using that by (simp add: fetch_urls fetch_my_characters_def fetch_list_present)
  show "fst (fetch_my_characters CharacterShort self s) = Inr []"
    if "answers self s characters_url 200 (JObj kvs)" "map_of kvs ''characters'' = None"
    using that by (simp add: fetch_urls fetch_my_characters_def fetch_list_absent)
  show "fst (fetch_my_upvoted_characters CharacterShort self s) = Inr (map gc xs)"
    if "answers self s upvoted_url 200 (JObj kvs)"
      "map_of kvs ''characters'' = Some (JArr xs) \<and> (\<forall>x \<in> set xs. CharacterShort x = Inr (gc x))"
    using that by (simp add: fetch_urls fetch_my_upvoted_characters_def fetch_list_present)
  show "fst (fetch_my_upvoted_characters CharacterShort self s) = Inr []"
    if "answers self s upvoted_url 200 (JObj kvs)" "map_of kvs ''characters'' = None"
    using that by (simp add: fetch_urls fetch_my_upvoted_characters_def fetch_list_absent)
  show "fst (fetch_my_voices Voice self s) = Inr (map gv xs)"
    if "answers self s voices_url 200 (JObj kvs)"
      "map_of kvs ''voices'' = Some (JArr xs) \<and> (\<forall>x \<in> set xs. Voice x = Inr (gv x))"
    using that by (simp add: fetch_urls fetch_my_voices_def fetch_list_present)
  show "fst (fetch_my_voices Voice self s) = Inr []"
    if "answers self s voices_url 200 (JObj kvs)" "map_of kvs ''voices'' = None"
    using that by (simp add: fetch_urls fetch_my_voices_def fetch_list_absent)
qed


theorem fetch_operations_witness:
  "fst (fetch_me Inr (canned_methods 404 JNull) fresh) = Inl FetchError
   \<and> fst (fetch_my_settings (canned_methods 404 JNull) fresh) = Inl FetchError
   \<and> fst (fetch_my_followers (canned_methods 404 JNull) fresh) = Inl FetchError
   \<and> fst (fetch_my_following (canned_methods 404 JNull) fresh) = Inl FetchError
   \<and> fst (fetch_my_persona Inr (canned_methods 404 JNull) ''p0'' fresh) = Inl FetchError
   \<and> fst (fetch_my_personas Inr (canned_methods 404 JNull) fresh) = Inl FetchError
   \<and> fst (fetch_my_characters Inr (canned_methods 404 JNull) fresh) = Inl FetchError
   \<and> fst (fetch_my_upvoted_characters Inr (canned_methods 404 JNull) fresh) = Inl FetchError
   \<and> fst (fetch_my_voices Inr (canned_methods 404 JNull) fresh) = Inl FetchError
   \<and> fst (fetch_me Inr (canned_methods 200 (JObj sample_body)) fresh)
        = Inr (JObj [(''username'', JStr ''alice'')])
   \<and> fst (fetch_my_settings (canned_methods 200 (JObj sample_body)) fresh) = Inr (JObj sample_body)
   \<and> fst (fetch_my_followers (canned_methods 200 (JObj sample_body)) fresh) = Inr (JArr [JStr ''bob''])
   \<and> fst (fetch_my_following (canned_methods 200 (JObj sample_body)) fresh) = Inr (JArr [])
   \<and> fst (fetch_my_persona Inr (canned_methods 200 (JObj sample_body)) ''p0'' fresh)
        = Inr (JObj [(''name'', JStr ''Alice'')])
   \<and> fst (fetch_my_personas Inr (canned_methods 200 (JObj sample_body)) fresh)
        = Inr [JObj [(''name'', JStr ''Alice'')], JObj [(''name'', JStr ''Ally'')]]
   \<and> fst (fetch_my_characters Inr (canned_methods 200 (JObj sample_body)) fresh)
        = Inr [JObj [(''title'', JStr ''Bot'')]]
   \<and> fst (fetch_my_upvoted_characters Inr (canned_methods 200 (JObj sample_body)) fresh)
        = Inr [JObj [(''title'', JStr ''Bot'')]]
   \<and> fst (fetch_my_voices Inr (canned_methods 200 (JObj sample_body)) fresh) = Inr []
   \<and> fst (fetch_my_followers (canned_methods 200 (JObj [])) fresh) = Inr (JArr [])
   \<and> fst (fetch_my_following (canned_methods 200 (JObj [])) fresh) = Inr (JArr [])
   \<and> fst (fetch_my_persona Inr (canned_methods 200 (JObj [])) ''p0'' fresh) = Inl FetchError
   \<and> fst (fetch_my_personas Inr (canned_methods 200 (JObj [])) fresh) = Inr []
   \<and> fst (fetch_my_characters Inr (canned_methods 200 (JObj [])) fresh) = Inr []
   \<and> fst (fetch_my_upvoted_characters Inr (canned_methods 200 (JObj [])) fresh) = Inr []
   \<and> fst (fetch_my_voices Inr (canned_methods 200 (JObj [])) fresh) = Inr []"
  using
    fetch_operations [where self = "canned_methods 404 JNull" and s = fresh and code = 404
      and j = JNull and persona_id = "''p0''"
      and Account = "Inr :: jvalue \<Rightarrow> error + jvalue" and Persona = "Inr :: jvalue \<Rightarrow> error + jvalue"
      and CharacterShort = "Inr :: jvalue \<Rightarrow> error + jvalue" and Voice = "Inr :: jvalue \<Rightarrow> error + jvalue"]
    fetch_operations [where self = "canned_methods 200 (JObj sample_body)" and s = fresh
      and code = 200 and j = "JObj sample_body" and kvs = sample_body and persona_id = "''p0''"
      and u = "[(''user'', JObj [(''username'', JStr ''alice'')])]"
      and p = "JObj [(''name'', JStr ''Alice'')]"
      and xs = "[JObj [(''name'', JStr ''Alice'')], JObj [(''name'', JStr ''Ally'')]]"
      and gp = "\<lambda>x. x"
      and Account = "Inr :: jvalue \<Rightarrow> error + jvalue" and Persona = "Inr :: jvalue \<Rightarrow> error + jvalue"
      and CharacterShort = "Inr :: jvalue \<Rightarrow> error + jvalue" and Voice = "Inr :: jvalue \<Rightarrow> error + jvalue"]
    fetch_operations [where self = "canned_methods 200 (JObj sample_body)" and s = fresh
      and code = 200 and j = "JObj sample_body" and kvs = sample_body and persona_id = "''p0''"
      and xs = "[JObj [(''title'', JStr ''Bot'')]]" and gc = "\<lambda>x. x"
      and Account = "Inr :: jvalue \<Rightarrow> error + jvalue" and Persona = "Inr :: jvalue \<Rightarrow> error + jvalue"
      and CharacterShort = "Inr :: jvalue \<Rightarrow> error + jvalue" and Voice = "Inr :: jvalue \<Rightarrow> error + jvalue"]
    fetch_operations [where self = "canned_methods 200 (JObj sample_body)" and s = fresh
      and code = 200 and j = "JObj sample_body" and kvs = sample_body and persona_id = "''p0''"
      and xs = "[]" and gv = "\<lambda>x. x"
      and Account = "Inr :: jvalue \<Rightarrow> error + jvalue" and Persona = "Inr :: jvalue \<Rightarrow> error + jvalue"
      and CharacterShort = "Inr :: jvalue \<Rightarrow> error + jvalue" and Voice = "Inr :: jvalue \<Rightarrow> error + jvalue"]
    fetch_operations [where self = "canned_methods 200 (JObj [])" and s = fresh
      and code = 200 and j = "JObj []" and kvs = "[]" and persona_id = "''p0''"
      and Account = "Inr :: jvalue \<Rightarrow> error + jvalue" and Persona = "Inr :: jvalue \<Rightarrow> error + jvalue"
      and CharacterShort = "Inr :: jvalue \<Rightarrow> error + jvalue" and Voice = "Inr :: jvalue \<Rightarrow> error + jvalue"]
  by (simp add: answers_canned sample_body_def dict_get_def)

text \<open>
  Claim C10. When the account request is answered with status 200 and a JSON object in
  which \<open>user\<close> is missing or null, \<open>fetch_me\<close> fails with the \<open>AttributeError\<close> of
  calling \<open>get\<close> on \<open>None\<close>, not with \<open>FetchError\<close>. Provided the \<open>Account\<close>
  constructor does not raise \<open>FetchError\<close> itself, \<open>fetch_me\<close> raises \<open>FetchError\<close>
  only on a status other than 200.
\<close>

theorem fetch_me_null_user:
  fixes Account :: "jvalue \<Rightarrow> error + 'a"
  shows
    "(answers self s user_url 200 (JObj kvs)
        \<and> (map_of kvs ''user'' = None \<or> map_of kvs ''user'' = Some JNull)
      \<longrightarrow> fst (fetch_me Account self s) = Inl AttributeError)
     \<and> ((\<forall>j. Account j \<noteq> Inl FetchError) \<and> fst (fetch_me Account self s) = Inl FetchError
      \<longrightarrow> status_code (response_to self s (get_request self user_url)) \<noteq> 200)"
  by (auto simp: fetch_me_def do_request_eq answers_def user_url_def dict_get_def
      split: sum.splits dest: py_get_Inl)

theorem fetch_me_null_user_witness:
  "fst (fetch_me Inr (canned_methods 200 (JObj [])) fresh) = Inl AttributeError
   \<and> fst (fetch_me Inr (canned_methods 200 (JObj [(''user'', JNull)])) fresh) = Inl AttributeError
   \<and> fst (fetch_me Inr (canned_methods 500 JNull) fresh) = Inl FetchError
   \<and> status_code (response_to (canned_methods 500 JNull) fresh
        (get_request (canned_methods 500 JNull) user_url)) \<noteq> 200"
  using
    fetch_me_null_user [where self = "canned_methods 200 (JObj [])" and s = fresh and kvs = "[]"
      and Account = "Inr :: jvalue \<Rightarrow> error + jvalue"]
    fetch_me_null_user [where self = "canned_methods 200 (JObj [(''user'', JNull)])" and s = fresh
      and kvs = "[(''user'', JNull)]" and Account = "Inr :: jvalue \<Rightarrow> error + jvalue"]
    fetch_me_null_user [where self = "canned_methods 500 JNull" and s = fresh
      and Account = "Inr :: jvalue \<Rightarrow> error + jvalue"]
    fetch_me_not_200 [of "canned_methods 500 JNull" fresh 500 JNull "Inr :: jvalue \<Rightarrow> error + jvalue"]
  by (simp add: answers_canned user_url_def)

section \<open>Account editing\<close>

text \<open>
  Claim C1. The first check of \<open>edit_account\<close> tests the length of \<open>name\<close> against 20
  where its message speaks of the username. A name of 21 characters with a valid
  username is therefore rejected, with no request issued, although it lies within 2 to 50;
  and a username of 21 characters with a valid name passes validation and is posted.
\<close>

theorem edit_account_bound_slip:
  "edit_account self (replicate 21 CHR ''a'') ''ab'' [] [] s = (Inl InvalidArgumentError, s)
   \<and> calls (snd (edit_account self ''ab'' (replicate 21 CHR ''a'') [] [] s))
       = calls s @ [post_request self account_update_url
           (BodyDumps (JObj [(''avatar_type'', JStr ''DEFAULT''), (''bio'', JStr []),
              (''name'', JStr ''ab''), (''username'', JStr (replicate 21 CHR ''a''))]))]"
  by (simp add: edit_account_def do_request_eq new_account_info_def account_update_url_def
      split: sum.splits)

text \<open>
  What the validation of \<open>edit_account\<close> does: it rejects, before any request, exactly
  the calls with a username shorter than 2, a name shorter than 2 or longer than 20, or
  a bio longer than 500; every other call posts the new account information.
\<close>

lemma edit_account_validation:
  "(length username < 2 \<or> length name < 2 \<or> 20 < length name \<or> 500 < length bio
      \<longrightarrow> edit_account self name username bio avatar_rel_path s = (Inl InvalidArgumentError, s))
   \<and> (\<not> (length username < 2 \<or> length name < 2 \<or> 20 < length name \<or> 500 < length bio)
      \<longrightarrow> fst (edit_account self name username bio avatar_rel_path s) \<noteq> Inl InvalidArgumentError
        \<and> calls (snd (edit_account self name username bio avatar_rel_path s))
            = calls s @ [post_request self account_update_url
                (BodyDumps (JObj (new_account_info name username bio avatar_rel_path)))])"
  by (auto simp: edit_account_def do_request_eq account_update_url_def
      split: sum.splits dest: py_get_Inl)

section \<open>The settings update\<close>

text \<open>
  Claim C8. When the options give none of \<open>default_persona_id\<close>, \<open>persona_override\<close>
  and \<open>voice_override\<close>, the settings update raises \<open>UpdateError\<close> at once: the session
  is returned as it was, so the settings were not fetched and nothing was posted.
\<close>

theorem update_settings_nothing_to_update:
  assumes "map_of options ''default_persona_id'' = None"
    and "map_of options ''persona_override'' = None"
    and "map_of options ''voice_override'' = None"
  shows "update_settings self options s = (Inl UpdateError, s)"
  using assms by (simp add: update_settings_def)

theorem update_settings_nothing_to_update_witness:
  "update_settings (canned_methods 200 (JObj [(''success'', JBool True)]))
     [(''character_id'', ''c1'')] fresh = (Inl UpdateError, fresh)
   \<and> calls fresh = []"
  using update_settings_nothing_to_update
    [of "[(''character_id'', ''c1'')]" "canned_methods 200 (JObj [(''success'', JBool True)])" fresh]
  by (simp add: fresh_def)

lemma snd_update_settings:
  assumes "answers self s settings_url 200 settings"
    and "apply_default_persona_id (map_of options ''default_persona_id'') settings = Inr defaulted"
    and "apply_persona_override (map_of options ''persona_override'') (map_of options ''character_id'')
           defaulted = Inr patched"
    and "\<not> (map_of options ''default_persona_id'' = None \<and> map_of options ''persona_override'' = None
            \<and> map_of options ''voice_override'' = None)"
  shows "snd (update_settings self options s)
           = after_request self (after_request self s (get_request self settings_url))
               (post_request self update_settings_url (BodyDumps patched))"
  using assms
  by (auto simp add: update_settings_def Let_def fetch_my_settings_def do_request_eq answers_def
      settings_url_def update_settings_url_def split: sum.splits)

lemma fst_update_settings:
  assumes "answers self s settings_url 200 settings"
    and "apply_default_persona_id (map_of options ''default_persona_id'') settings = Inr defaulted"
    and "apply_persona_override (map_of options ''persona_override'') (map_of options ''character_id'')
           defaulted = Inr patched"
    and "\<not> (map_of options ''default_persona_id'' = None \<and> map_of options ''persona_override'' = None
            \<and> map_of options ''voice_override'' = None)"
    and "response_to self (after_request self s (get_request self settings_url))
           (post_request self update_settings_url (BodyDumps patched))
         = \<lparr>status_code = 200, json = JObj kvs\<rparr>"
    and "truthy (dict_get kvs ''success'' (JBool False))"
  shows "fst (update_settings self options s) = Inr (dict_get kvs ''settings'' JNull)"
  using assms
  by (auto simp add: update_settings_def Let_def fetch_my_settings_def do_request_eq answers_def
      settings_url_def update_settings_url_def split: sum.splits)

lemma snd_set_persona:
  "snd (set_persona self c p s)
     = snd (update_settings self [(''persona_override'', none_to_empty p), (''character_id'', c)] s)"
  by (auto simp: set_persona_def split: prod.splits sum.splits)

lemma fst_set_persona:
  "fst (set_persona self c p s)
     = (case fst (update_settings self [(''persona_override'', none_to_empty p), (''character_id'', c)] s) of
          Inl e \<Rightarrow> Inl SetError | Inr settings \<Rightarrow> Inr True)"
  by (auto simp: set_persona_def split: prod.splits sum.splits)

lemma snd_set_default_persona:
  "snd (set_default_persona self p s)
     = snd (update_settings self [(''default_persona_id'', none_to_empty p)] s)"
  by (auto simp: set_default_persona_def split: prod.splits sum.splits)

lemma fst_set_default_persona:
  "fst (set_default_persona self p s)
     = (case fst (update_settings self [(''default_persona_id'', none_to_empty p)] s) of
          Inl e \<Rightarrow> Inl SetError | Inr settings \<Rightarrow> Inr True)"
  by (auto simp: set_default_persona_def split: prod.splits sum.splits)

text \<open>
  Claim C3. The settings update fetches the settings and posts the whole object back:
  exactly two requests are issued, the GET of the settings and the POST of the patched
  object. In the posted object every key other than \<open>default_persona_id\<close> and
  \<open>personaOverrides\<close> has the fetched value; \<open>default_persona_id\<close> is the given one, or
  the fetched one when none is given; when a persona override and a character id are
  given, \<open>personaOverrides\<close> is the fetched mapping with the character id mapped to the
  override, and it is the fetched value otherwise. In particular, on the settings
  \<open>{"default_persona_id": "p0", "personaOverrides": {}}\<close> the call
  \<open>set_persona("c1", "p1")\<close> posts
  \<open>{"default_persona_id": "p0", "personaOverrides": {"c1": "p1"}}\<close>.
\<close>

theorem update_settings_read_modify_write:
  "(answers self s settings_url 200 (JObj settings)
      \<and> \<not> (map_of options ''default_persona_id'' = None \<and> map_of options ''persona_override'' = None
            \<and> map_of options ''voice_override'' = None)
      \<and> (map_of options ''persona_override'' \<noteq> None \<and> map_of options ''character_id'' \<noteq> None
           \<longrightarrow> dict_get settings ''personaOverrides'' (JObj []) = JObj overrides)
    \<longrightarrow> (\<exists>posted.
          calls (snd (update_settings self options s))
            = calls s @ [get_request self settings_url,
                         post_request self update_settings_url (BodyDumps (JObj posted))]
          \<and> (\<forall>k. k \<noteq> ''default_persona_id'' \<and> k \<noteq> ''personaOverrides''
                 \<longrightarrow> map_of posted k = map_of settings k)
          \<and> map_of posted ''default_persona_id''
               = (case map_of options ''default_persona_id'' of
                    None \<Rightarrow> map_of settings ''default_persona_id''
                  | Some d \<Rightarrow> Some (JStr d))
          \<and> (case (map_of options ''persona_override'', map_of options ''character_id'') of
                (Some p, Some c) \<Rightarrow>
                  (\<exists>overrides'. map_of posted ''personaOverrides'' = Some (JObj overrides')
                     \<and> map_of overrides' = (map_of overrides)(c \<mapsto> JStr p))
              | _ \<Rightarrow> map_of posted ''personaOverrides'' = map_of settings ''personaOverrides'')))
   \<and> (answers self s settings_url 200
         (JObj [(''default_persona_id'', JStr ''p0''), (''personaOverrides'', JObj [])])
    \<longrightarrow> calls (snd (set_persona self ''c1'' (Some ''p1'') s))
          = calls s @ [get_request self settings_url,
                       post_request self update_settings_url
                         (BodyDumps (JObj [(''default_persona_id'', JStr ''p0''),
                                           (''personaOverrides'', JObj [(''c1'', JStr ''p1'')])]))])"
proof (intro conjI impI)
  assume a: "answers self s settings_url 200 (JObj settings)
      \<and> \<not> (map_of options ''default_persona_id'' = None \<and> map_of options ''persona_override'' = None
            \<and> map_of options ''voice_override'' = None)
      \<and> (map_of options ''persona_override'' \<noteq> None \<and> map_of options ''character_id'' \<noteq> None
           \<longrightarrow> dict_get settings ''personaOverrides'' (JObj []) = JObj overrides)"
  define dp where "dp = map_of options ''default_persona_id''"
  define po where "po = map_of options ''persona_override''"
  define cid where "cid = map_of options ''character_id''"
  define settings1 where
    "settings1 = (case dp of None \<Rightarrow> settings | Some d \<Rightarrow> dict_set settings ''default_persona_id'' (JStr d))"
  define posted where
    "posted = (case (po, cid) of
                 (Some p, Some c) \<Rightarrow>
                   dict_set settings1 ''personaOverrides'' (JObj (dict_set overrides c (JStr p)))
               | _ \<Rightarrow> settings1)"
  have s1: "apply_default_persona_id dp (JObj settings) = Inr (JObj settings1)"
    by (simp add: apply_default_persona_id_def settings1_def split: option.splits)
  have ov: "po \<noteq> None \<and> cid \<noteq> None \<longrightarrow> dict_get settings1 ''personaOverrides'' (JObj []) = JObj overrides"
    using a by (auto simp: settings1_def dict_get_def map_of_dict_set po_def cid_def split: option.splits)
  have s2: "apply_persona_override po cid (JObj settings1) = Inr (JObj posted)"
    using ov by (auto simp: apply_persona_override_def posted_def split: option.splits)
  have "snd (update_settings self options s)
           = after_request self (after_request self s (get_request self settings_url))
               (post_request self update_settings_url (BodyDumps (JObj posted)))"
    using a s1 s2 by (intro snd_update_settings[where settings = "JObj settings" and defaulted = "JObj settings1"])
      (simp_all add: dp_def po_def cid_def)
  then have c: "calls (snd (update_settings self options s))
            = calls s @ [get_request self settings_url,
                         post_request self update_settings_url (BodyDumps (JObj posted))]"
    by simp
  have k: "\<forall>k. k \<noteq> ''default_persona_id'' \<and> k \<noteq> ''personaOverrides''
                 \<longrightarrow> map_of posted k = map_of settings k"
    by (auto simp: posted_def settings1_def map_of_dict_set split: option.splits)
  have d: "map_of posted ''default_persona_id''
               = (case dp of None \<Rightarrow> map_of settings ''default_persona_id'' | Some d \<Rightarrow> Some (JStr d))"
    by (auto simp: posted_def settings1_def map_of_dict_set split: option.splits)
  have o: "(case (po, cid) of
                (Some p, Some c) \<Rightarrow>
                  (\<exists>overrides'. map_of posted ''personaOverrides'' = Some (JObj overrides')
                     \<and> map_of overrides' = (map_of overrides)(c \<mapsto> JStr p))
              | _ \<Rightarrow> map_of posted ''personaOverrides'' = map_of settings ''personaOverrides'')"
    by (auto simp: posted_def settings1_def map_of_dict_set split: option.splits)
  show "\<exists>posted.
          calls (snd (update_settings self options s))
            = calls s @ [get_request self settings_url,
                         post_request self update_settings_url (BodyDumps (JObj posted))]
          \<and> (\<forall>k. k \<noteq> ''default_persona_id'' \<and> k \<noteq> ''personaOverrides''
                 \<longrightarrow> map_of posted k = map_of settings k)
          \<and> map_of posted ''default_persona_id''
               = (case map_of options ''default_persona_id'' of
                    None \<Rightarrow> map_of settings ''default_persona_id''
                  | Some d \<Rightarrow> Some (JStr d))
          \<and> (case (map_of options ''persona_override'', map_of options ''character_id'') of
                (Some p, Some c) \<Rightarrow>
                  (\<exists>overrides'. map_of posted ''personaOverrides'' = Some (JObj overrides')
                     \<and> map_of overrides' = (map_of overrides)(c \<mapsto> JStr p))
              | _ \<Rightarrow> map_of posted ''personaOverrides'' = map_of settings ''personaOverrides'')"
    using c k d o unfolding dp_def po_def cid_def by blast
next
  assume a: "answers self s settings_url 200
         (JObj [(''default_persona_id'', JStr ''p0''), (''personaOverrides'', JObj [])])"
  have "snd (update_settings self [(''persona_override'', ''p1''), (''character_id'', ''c1'')] s)
           = after_request self (after_request self s (get_request self settings_url))
               (post_request self update_settings_url
                  (BodyDumps (JObj [(''default_persona_id'', JStr ''p0''),
                                    (''personaOverrides'', JObj [(''c1'', JStr ''p1'')])])))"
    using a
    by (intro snd_update_settings[where
          defaulted = "JObj [(''default_persona_id'', JStr ''p0''), (''personaOverrides'', JObj [])]"
          and settings = "JObj [(''default_persona_id'', JStr ''p0''), (''personaOverrides'', JObj [])]"])
      (simp_all add: apply_default_persona_id_def apply_persona_override_def dict_get_def)
  then show "calls (snd (set_persona self ''c1'' (Some ''p1'') s))
          = calls s @ [get_request self settings_url,
                       post_request self update_settings_url
                         (BodyDumps (JObj [(''default_persona_id'', JStr ''p0''),
                                           (''personaOverrides'', JObj [(''c1'', JStr ''p1'')])]))]"
    by (simp add: snd_set_persona none_to_empty_def)
qed


theorem update_settings_read_modify_write_witness:
  "answers store_methods
     (store_session (JObj [(''default_persona_id'', JStr ''p0''), (''personaOverrides'', JObj [])]))
     settings_url 200 (JObj [(''default_persona_id'', JStr ''p0''), (''personaOverrides'', JObj [])])
   \<and> calls (snd (set_persona store_methods ''c1'' (Some ''p1'')
        (store_session (JObj [(''default_persona_id'', JStr ''p0''), (''personaOverrides'', JObj [])]))))
       = [get_request store_methods settings_url,
          post_request store_methods update_settings_url
            (BodyDumps (JObj [(''default_persona_id'', JStr ''p0''),
                              (''personaOverrides'', JObj [(''c1'', JStr ''p1'')])]))]
   \<and> (\<exists>posted.
         calls (snd (update_settings store_methods [(''default_persona_id'', ''p9'')]
           (store_session (JObj [(''default_persona_id'', JStr ''p0''), (''personaOverrides'', JObj [])]))))
           = [get_request store_methods settings_url,
              post_request store_methods update_settings_url (BodyDumps (JObj posted))]
         \<and> map_of posted ''default_persona_id'' = Some (JStr ''p9'')
         \<and> map_of posted ''personaOverrides'' = Some (JObj []))"
  using
    update_settings_read_modify_write
      [where self = store_methods
         and s = "store_session (JObj [(''default_persona_id'', JStr ''p0''), (''personaOverrides'', JObj [])])"
         and settings = "[(''default_persona_id'', JStr ''p0''), (''personaOverrides'', JObj [])]"
         and options = "[(''default_persona_id'', ''p9'')]"]
    answers_store [of "JObj [(''default_persona_id'', JStr ''p0''), (''personaOverrides'', JObj [])]"]
  by (simp add: store_session_def) blast

lemma apply_persona_override_obj:
  "dict_get settings ''personaOverrides'' (JObj []) = JObj overrides \<Longrightarrow>
   apply_persona_override (Some p) (Some c) (JObj settings)
     = Inr (JObj (dict_set settings ''personaOverrides'' (JObj (dict_set overrides c (JStr p)))))"
  by (simp add: apply_persona_override_def)

lemma unset_persona_run:
  assumes get: "\<And>w. requester self w (get_request self settings_url)
                   = (\<lparr>status_code = 200, json = settings_of w\<rparr>, w)"
    and post: "\<And>w p. \<exists>w' kvs. requester self w (post_request self update_settings_url (BodyDumps p))
                   = (\<lparr>status_code = 200, json = JObj kvs\<rparr>, w')
                 \<and> truthy (dict_get kvs ''success'' (JBool False)) \<and> settings_of w' = p"
    and cur: "settings_of (world s) = JObj settings"
    and ov: "dict_get settings ''personaOverrides'' (JObj []) = JObj overrides"
  shows "\<exists>s'. unset_persona self c s = (Inr True, s')
           \<and> calls s' = calls s @ [get_request self settings_url,
                post_request self update_settings_url
                  (BodyDumps (JObj (dict_set settings ''personaOverrides''
                                      (JObj (dict_set overrides c (JStr []))))))]
           \<and> settings_of (world s')
               = JObj (dict_set settings ''personaOverrides'' (JObj (dict_set overrides c (JStr []))))"
proof -
  let ?posted = "JObj (dict_set settings ''personaOverrides'' (JObj (dict_set overrides c (JStr []))))"
  obtain w' kvs where p:
    "requester self (world s) (post_request self update_settings_url (BodyDumps ?posted))
       = (\<lparr>status_code = 200, json = JObj kvs\<rparr>, w')"
    "truthy (dict_get kvs ''success'' (JBool False))" "settings_of w' = ?posted"
    using post by blast
  have "unset_persona self c s
          = (Inr True, \<lparr>world = w', calls = calls s @ [get_request self settings_url,
                post_request self update_settings_url (BodyDumps ?posted)]\<rparr>)"
    using get[of "world s"] p cur apply_persona_override_obj[OF ov, of "[]" c]
    by (simp add: unset_persona_def set_persona_def update_settings_def fetch_my_settings_def
        do_request_def none_to_empty_def apply_default_persona_id_def
        settings_url_def update_settings_url_def)
  then show ?thesis using p by simp
qed

text \<open>
  Claim C9. Against a server that returns its stored settings and stores what is posted,
  two consecutive calls \<open>unset_persona(c)\<close> both return true and post the same payload;
  when the character is already unset in the fetched settings (it is mapped to the empty
  string), that payload is the fetched settings object itself.
\<close>

theorem unset_persona_idempotent:
  assumes get: "\<And>w. requester self w (get_request self settings_url)
                   = (\<lparr>status_code = 200, json = settings_of w\<rparr>, w)"
    and post: "\<And>w p. \<exists>w' kvs. requester self w (post_request self update_settings_url (BodyDumps p))
                   = (\<lparr>status_code = 200, json = JObj kvs\<rparr>, w')
                 \<and> truthy (dict_get kvs ''success'' (JBool False)) \<and> settings_of w' = p"
    and cur: "settings_of (world s) = JObj settings"
    and ov: "dict_get settings ''personaOverrides'' (JObj []) = JObj overrides"
  shows "\<exists>payload sa sb.
           unset_persona self c s = (Inr True, sa)
         \<and> unset_persona self c sa = (Inr True, sb)
         \<and> calls sa = calls s @ [get_request self settings_url,
                                  post_request self update_settings_url (BodyDumps payload)]
         \<and> calls sb = calls sa @ [get_request self settings_url,
                                   post_request self update_settings_url (BodyDumps payload)]
         \<and> (map_of overrides c = Some (JStr []) \<and> map_of settings ''personaOverrides'' = Some (JObj overrides)
              \<longrightarrow> payload = JObj settings)"
proof -
  let ?ov = "dict_set overrides c (JStr [])"
  let ?posted = "dict_set settings ''personaOverrides'' (JObj ?ov)"
  obtain sa where a: "unset_persona self c s = (Inr True, sa)"
    "calls sa = calls s @ [get_request self settings_url,
        post_request self update_settings_url (BodyDumps (JObj ?posted))]"
    "settings_of (world sa) = JObj ?posted"
    using unset_persona_run[OF get post cur ov] by blast
  have ov': "dict_get ?posted ''personaOverrides'' (JObj []) = JObj ?ov"
    by (simp add: dict_get_dict_set)
  have again: "dict_set ?posted ''personaOverrides'' (JObj (dict_set ?ov c (JStr []))) = ?posted"
    by (simp add: dict_set_idem)
  obtain sb where b: "unset_persona self c sa = (Inr True, sb)"
    "calls sb = calls sa @ [get_request self settings_url,
        post_request self update_settings_url (BodyDumps (JObj ?posted))]"
    using unset_persona_run[OF get post a(3) ov', of c] unfolding again by blast
  have "map_of overrides c = Some (JStr []) \<and> map_of settings ''personaOverrides'' = Some (JObj overrides)
          \<longrightarrow> JObj ?posted = JObj settings"
    by (simp add: dict_set_same)
  with a b show ?thesis by blast
qed


theorem unset_persona_idempotent_witness:
  "\<exists>sa sb.
     unset_persona store_methods ''c1''
       (store_session (JObj [(''default_persona_id'', JStr ''p0''),
                             (''personaOverrides'', JObj [(''c1'', JStr [])])])) = (Inr True, sa)
   \<and> unset_persona store_methods ''c1'' sa = (Inr True, sb)
   \<and> calls sa
       = [get_request store_methods settings_url,
          post_request store_methods update_settings_url
            (BodyDumps (JObj [(''default_persona_id'', JStr ''p0''),
                              (''personaOverrides'', JObj [(''c1'', JStr [])])]))]
   \<and> calls sb
       = calls sa @
         [get_request store_methods settings_url,
          post_request store_methods update_settings_url
            (BodyDumps (JObj [(''default_persona_id'', JStr ''p0''),
                              (''personaOverrides'', JObj [(''c1'', JStr [])])]))]"
proof -
  have get: "\<And>w. requester store_methods w (get_request store_methods settings_url)
                = (\<lparr>status_code = 200, json = w\<rparr>, w)"
    by (simp add: store_methods_def settings_store_def get_request_def)
  have post: "\<And>w p. \<exists>w' kvs.
                requester store_methods w (post_request store_methods update_settings_url (BodyDumps p))
                  = (\<lparr>status_code = 200, json = JObj kvs\<rparr>, w')
                \<and> truthy (dict_get kvs ''success'' (JBool False)) \<and> w' = p"
    by (simp add: store_methods_def settings_store_def post_request_def dict_get_def
        settings_url_def update_settings_url_def)
  show ?thesis
    using unset_persona_idempotent
      [of store_methods "\<lambda>w. w"
          "store_session (JObj [(''default_persona_id'', JStr ''p0''),
                                (''personaOverrides'', JObj [(''c1'', JStr [])])])"
          "[(''default_persona_id'', JStr ''p0''), (''personaOverrides'', JObj [(''c1'', JStr [])])]"
          "[(''c1'', JStr [])]" "''c1''", OF get post]
    by (simp add: store_session_def dict_get_def) blast
qed

section \<open>Personas\<close>

lemma persona_double_sample: "persona_double sample_persona_json = Inr sample_persona"
  by (simp add: persona_double_def sample_persona_json_def sample_persona_def dict_get_def)

lemma fetch_sample_persona:
  "fetch_my_persona persona_double persona_server pid fresh
     = (Inr sample_persona, \<lparr>world = (), calls = [get_request persona_server (persona_url pid)]\<rparr>)"
  by (simp add: fetch_my_persona_def do_request_def persona_server_def canned_methods_def fresh_def
      dict_get_def persona_double_sample persona_url_def)
    (simp add: sample_persona_json_def)

lemma snd_edit_persona:
  assumes "name = [] \<or> (3 \<le> length name \<and> length name \<le> 20)"
    and "length defn \<le> 728"
    and "fetch_my_persona Persona self persona_id s = (Inr old_persona, s1)"
  shows "snd (edit_persona Persona self persona_id name defn avatar_rel_path s)
           = after_request self s1
               (post_request self persona_update_url
                  (BodyDumps (JObj (edit_persona_payload (client self) persona_id name defn
                                      avatar_rel_path old_persona))))"
  using assms
  by (auto simp: edit_persona_def do_request_eq persona_update_url_def split: sum.splits)

lemma edit_persona_payload_keys:
  "map fst (edit_persona_payload cl persona_id name defn avatar_rel_path old_persona)
     = [''avatar_file_name'', ''avatar_rel_path'', ''copyable'', ''default_voice_id'',
        ''definition'', ''description'', ''enabled'', ''external_id'', ''greeting'',
        ''img_gen_enabled'', ''is_persona'', ''name'', ''participant__name'',
        ''participant__num_interactions'', ''title'', ''user__id'', ''user__username'',
        ''visibility'']"
  by (simp add: edit_persona_payload_def Let_def)

lemma edit_persona_payload_fields:
  "map_of (edit_persona_payload cl persona_id name defn avatar_rel_path old_persona) ''definition''
     = Some (if defn = [] then persona_definition old_persona else JStr defn)"
  "map_of (edit_persona_payload cl persona_id name defn avatar_rel_path old_persona) ''name''
     = Some (if name = [] then persona_name old_persona else JStr name)"
  "map_of (edit_persona_payload cl persona_id name defn avatar_rel_path old_persona) ''avatar_file_name''
     = Some (if avatar_rel_path = [] then old_avatar_file_name old_persona else JStr avatar_rel_path)"
  "map_of (edit_persona_payload cl persona_id name defn avatar_rel_path old_persona) ''avatar_rel_path''
     = Some (if avatar_rel_path = [] then old_avatar_file_name old_persona else JStr avatar_rel_path)"
  "map_of (edit_persona_payload cl persona_id name defn avatar_rel_path old_persona) ''title''
     = Some (JStr name)"
  by (simp_all add: edit_persona_payload_def str_or_def Let_def)

text \<open>
  Claim C5. For a call of \<open>edit_persona\<close> whose arguments pass validation and whose
  preliminary fetch returns a persona, exactly one further request is issued, the POST of
  a payload with the eighteen keys of the full-replacement shape, in which
  \<open>definition\<close> and \<open>name\<close> are the arguments, or the fetched persona's values when the
  argument is empty; \<open>avatar_file_name\<close> and \<open>avatar_rel_path\<close> are both the new avatar
  path when it is not empty, and both the fetched avatar's file name otherwise; and
  \<open>title\<close> is the \<open>name\<close> argument as given, empty or not.
\<close>

theorem edit_persona_merges_over_fetched:
  assumes "name = [] \<or> (3 \<le> length name \<and> length name \<le> 20)"
    and "length defn \<le> 728"
    and "fetch_my_persona Persona self persona_id s = (Inr old_persona, s1)"
  shows "\<exists>payload.
           calls (snd (edit_persona Persona self persona_id name defn avatar_rel_path s))
             = calls s1 @ [post_request self persona_update_url (BodyDumps (JObj payload))]
         \<and> map fst payload
             = [''avatar_file_name'', ''avatar_rel_path'', ''copyable'', ''default_voice_id'',
                ''definition'', ''description'', ''enabled'', ''external_id'', ''greeting'',
                ''img_gen_enabled'', ''is_persona'', ''name'', ''participant__name'',
                ''participant__num_interactions'', ''title'', ''user__id'', ''user__username'',
                ''visibility'']
         \<and> map_of payload ''definition''
             = Some (if defn = [] then persona_definition old_persona else JStr defn)
         \<and> map_of payload ''name''
             = Some (if name = [] then persona_name old_persona else JStr name)
         \<and> map_of payload ''avatar_file_name''
             = Some (if avatar_rel_path = [] then old_avatar_file_name old_persona
                     else JStr avatar_rel_path)
         \<and> map_of payload ''avatar_rel_path''
             = Some (if avatar_rel_path = [] then old_avatar_file_name old_persona
                     else JStr avatar_rel_path)
         \<and> map_of payload ''title'' = Some (JStr name)"
  using snd_edit_persona[OF assms, of avatar_rel_path]
    edit_persona_payload_keys[of "client self" persona_id name defn avatar_rel_path old_persona]
    edit_persona_payload_fields[of "client self" persona_id name defn avatar_rel_path old_persona]
  by (intro exI[of _ "edit_persona_payload (client self) persona_id name defn avatar_rel_path old_persona"])
    simp

theorem edit_persona_merges_over_fetched_witness:
  "fetch_my_persona persona_double persona_server ''p1'' fresh
     = (Inr sample_persona, \<lparr>world = (), calls = [get_request persona_server (persona_url ''p1'')]\<rparr>)
   \<and> (\<exists>payload.
         calls (snd (edit_persona persona_double persona_server ''p1'' [] ''Likes tea.'' [] fresh))
           = [get_request persona_server (persona_url ''p1''),
              post_request persona_server persona_update_url (BodyDumps (JObj payload))]
         \<and> map_of payload ''definition'' = Some (JStr ''Likes tea.'')
         \<and> map_of payload ''name'' = Some (JStr ''Alice'')
         \<and> map_of payload ''avatar_file_name'' = Some (JStr ''a.png'')
         \<and> map_of payload ''avatar_rel_path'' = Some (JStr ''a.png'')
         \<and> map_of payload ''title'' = Some (JStr []))"
  using edit_persona_merges_over_fetched
    [of "[]" "''Likes tea.''" persona_double persona_server "''p1''" fresh sample_persona
        "\<lparr>world = (), calls = [get_request persona_server (persona_url ''p1'')]\<rparr>" "[]"]
    fetch_sample_persona[of "''p1''"]
  by (simp add: old_avatar_file_name_def sample_persona_def) blast


text \<open>
  Claim C7. When the preliminary fetch of \<open>edit_persona\<close> (reached once the arguments
  pass validation) or of \<open>delete_persona\<close> raises any exception, the operation raises
  \<open>EditError\<close> or \<open>DeleteError\<close> and issues no further request. When the settings update
  inside \<open>set_default_persona\<close>, \<open>unset_default_persona\<close>, \<open>set_persona\<close> or
  \<open>unset_persona\<close> raises any exception, the operation raises \<open>SetError\<close>; these four
  operations raise no other exception.
\<close>

theorem inner_failures_are_rewrapped:
  fixes Persona :: "jvalue \<Rightarrow> error + persona"
  shows
    "(fetch_my_persona Persona self persona_id s = (Inl e, s1)
        \<and> (name = [] \<or> (3 \<le> length name \<and> length name \<le> 20)) \<and> length defn \<le> 728
      \<longrightarrow> edit_persona Persona self persona_id name defn avatar_rel_path s = (Inl EditError, s1))
     \<and> (fetch_my_persona Persona self persona_id s = (Inl e, s1)
      \<longrightarrow> delete_persona Persona self persona_id s = (Inl DeleteError, s1))
     \<and> (update_settings self [(''default_persona_id'', none_to_empty p)] s = (Inl e, s1)
      \<longrightarrow> set_default_persona self p s = (Inl SetError, s1))
     \<and> (update_settings self [(''default_persona_id'', [])] s = (Inl e, s1)
      \<longrightarrow> unset_default_persona self s = (Inl SetError, s1))
     \<and> (update_settings self [(''persona_override'', none_to_empty p), (''character_id'', c)] s
          = (Inl e, s1)
      \<longrightarrow> set_persona self c p s = (Inl SetError, s1))
     \<and> (update_settings self [(''persona_override'', []), (''character_id'', c)] s = (Inl e, s1)
      \<longrightarrow> unset_persona self c s = (Inl SetError, s1))
     \<and> (\<forall>e'. fst (set_default_persona self p s) = Inl e' \<or> fst (unset_default_persona self s) = Inl e'
              \<or> fst (set_persona self c p s) = Inl e' \<or> fst (unset_persona self c s) = Inl e'
          \<longrightarrow> e' = SetError)"
  by (auto simp: edit_persona_def delete_persona_def set_default_persona_def
      unset_default_persona_def set_persona_def unset_persona_def none_to_empty_def
      split: prod.splits sum.splits)

theorem inner_failures_are_rewrapped_witness:
  "fetch_my_persona persona_double (canned_methods 404 JNull) ''p1'' fresh
     = (Inl FetchError, after_request (canned_methods 404 JNull) fresh
          (get_request (canned_methods 404 JNull) (persona_url ''p1'')))
   \<and> edit_persona persona_double (canned_methods 404 JNull) ''p1'' ''Alice'' [] [] fresh
     = (Inl EditError, after_request (canned_methods 404 JNull) fresh
          (get_request (canned_methods 404 JNull) (persona_url ''p1'')))
   \<and> fetch_my_persona persona_double (canned_methods 200 (JArr [])) ''p1'' fresh
     = (Inl AttributeError, after_request (canned_methods 200 (JArr [])) fresh
          (get_request (canned_methods 200 (JArr [])) (persona_url ''p1'')))
   \<and> delete_persona persona_double (canned_methods 200 (JArr [])) ''p1'' fresh
     = (Inl DeleteError, after_request (canned_methods 200 (JArr [])) fresh
          (get_request (canned_methods 200 (JArr [])) (persona_url ''p1'')))
   \<and> update_settings (canned_methods 404 JNull) [(''default_persona_id'', ''p1'')] fresh
     = (Inl FetchError, after_request (canned_methods 404 JNull) fresh
          (get_request (canned_methods 404 JNull) settings_url))
   \<and> set_default_persona (canned_methods 404 JNull) (Some ''p1'') fresh
     = (Inl SetError, after_request (canned_methods 404 JNull) fresh
          (get_request (canned_methods 404 JNull) settings_url))
   \<and> unset_default_persona (canned_methods 404 JNull) fresh
     = (Inl SetError, after_request (canned_methods 404 JNull) fresh
          (get_request (canned_methods 404 JNull) settings_url))
   \<and> set_persona (canned_methods 404 JNull) ''c1'' (Some ''p1'') fresh
     = (Inl SetError, after_request (canned_methods 404 JNull) fresh
          (get_request (canned_methods 404 JNull) settings_url))
   \<and> unset_persona (canned_methods 404 JNull) ''c1'' fresh
     = (Inl SetError, after_request (canned_methods 404 JNull) fresh
          (get_request (canned_methods 404 JNull) settings_url))"
proof -
  let ?m = "canned_methods 404 JNull"
  let ?n = "canned_methods 200 (JArr [])"
  have f: "fetch_my_persona persona_double ?m ''p1'' fresh
     = (Inl FetchError, after_request ?m fresh (get_request ?m (persona_url ''p1'')))"
    by (simp add: fetch_my_persona_def do_request_eq response_to_def canned_methods_def persona_url_def)
  have g: "fetch_my_persona persona_double ?n ''p1'' fresh
     = (Inl AttributeError, after_request ?n fresh (get_request ?n (persona_url ''p1'')))"
    by (simp add: fetch_my_persona_def do_request_eq response_to_def canned_methods_def persona_url_def)
  have fs: "fetch_my_settings ?m fresh
     = (Inl FetchError, after_request ?m fresh (get_request ?m settings_url))"
    by (simp add: fetch_my_settings_def do_request_eq response_to_def canned_methods_def settings_url_def)
  have u: "update_settings ?m [(k, v)] fresh
             = (Inl FetchError, after_request ?m fresh (get_request ?m settings_url))"
    if "k = ''default_persona_id''" for k v
    using that by (simp add: update_settings_def Let_def fs)
  have u': "update_settings ?m [(''persona_override'', v), (''character_id'', c)] fresh
             = (Inl FetchError, after_request ?m fresh (get_request ?m settings_url))" for v c
    by (simp add: update_settings_def Let_def fs)
  show ?thesis
    using
      inner_failures_are_rewrapped [where Persona = persona_double and self = ?m and persona_id = "''p1''"
        and s = fresh and e = FetchError and name = "''Alice''" and defn = "[]" and avatar_rel_path = "[]"
        and ?s1.0 = "after_request ?m fresh (get_request ?m (persona_url ''p1''))"]
      inner_failures_are_rewrapped [where Persona = persona_double and self = ?n and persona_id = "''p1''"
        and s = fresh and e = AttributeError
        and ?s1.0 = "after_request ?n fresh (get_request ?n (persona_url ''p1''))"]
      inner_failures_are_rewrapped [where self = ?m and s = fresh and e = FetchError
        and p = "Some ''p1''" and c = "''c1''"
        and ?s1.0 = "after_request ?m fresh (get_request ?m settings_url)"]
      f g u u'
    by (simp add: none_to_empty_def)
qed


lemma persona_response_ok_obj:
  "persona_response_ok (JObj kvs)
     = Inr (map_of kvs ''status'' = Some (JStr ''OK'') \<and> dict_get kvs ''persona'' JNull \<noteq> JNull)"
  by (auto simp: persona_response_ok_def dict_get_def split: option.splits)

lemma persona_response_ok_not_object:
  "\<not> is_object j \<Longrightarrow> persona_response_ok j = Inl AttributeError"
  by (simp add: persona_response_ok_def py_get_not_object)

lemma delete_persona_after_fetch:
  assumes "fetch_my_persona Persona self persona_id s = (Inr old_persona, s1)"
  shows "snd (delete_persona Persona self persona_id s)
           = after_request self s1
               (post_request self persona_update_url
                  (BodyDumps (JObj (delete_persona_payload (client self) persona_id old_persona))))"
    and "status_code (response_to self s1 (post_request self persona_update_url
            (BodyDumps (JObj (delete_persona_payload (client self) persona_id old_persona))))) \<noteq> 200
         \<Longrightarrow> fst (delete_persona Persona self persona_id s) = Inl DeleteError"
    and "response_to self s1 (post_request self persona_update_url
            (BodyDumps (JObj (delete_persona_payload (client self) persona_id old_persona))))
           = \<lparr>status_code = 200, json = JObj kvs\<rparr>
         \<Longrightarrow> fst (delete_persona Persona self persona_id s)
             = (if map_of kvs ''status'' = Some (JStr ''OK'') \<and> dict_get kvs ''persona'' JNull \<noteq> JNull
                then Inr True else Inl DeleteError)"
    and "response_to self s1 (post_request self persona_update_url
            (BodyDumps (JObj (delete_persona_payload (client self) persona_id old_persona))))
           = \<lparr>status_code = 200, json = j\<rparr> \<and> \<not> is_object j
         \<Longrightarrow> fst (delete_persona Persona self persona_id s) = Inl AttributeError"
  using assms
  by (auto simp: delete_persona_def do_request_eq persona_update_url_def persona_response_ok_obj
      persona_response_ok_not_object split: sum.splits)

lemma delete_persona_payload_keys:
  "map fst (delete_persona_payload cl persona_id old_persona)
     = [''archived'', ''avatar_file_name'', ''copyable'', ''default_voice_id'',
        ''definition'', ''description'', ''external_id'', ''greeting'',
        ''img_gen_enabled'', ''is_persona'', ''name'', ''participant__name'',
        ''participant__num_interactions'', ''title'', ''user__id'', ''user__username'',
        ''visibility'']"
  by (simp add: delete_persona_payload_def)

lemma delete_persona_payload_fields:
  "map_of (delete_persona_payload cl persona_id old_persona) ''archived'' = Some (JBool True)"
  "map_of (delete_persona_payload cl persona_id old_persona) ''name'' = Some (persona_name old_persona)"
  "map_of (delete_persona_payload cl persona_id old_persona) ''participant__name''
     = Some (persona_name old_persona)"
  "map_of (delete_persona_payload cl persona_id old_persona) ''title'' = Some (persona_name old_persona)"
  "map_of (delete_persona_payload cl persona_id old_persona) ''definition''
     = Some (persona_definition old_persona)"
  "map_of (delete_persona_payload cl persona_id old_persona) ''avatar_file_name''
     = Some (old_avatar_file_name old_persona)"
  "map_of (delete_persona_payload cl persona_id old_persona) ''user__username''
     = Some (author_username old_persona)"
  "map_of (delete_persona_payload cl persona_id old_persona) ''external_id'' = Some (JStr persona_id)"
  "map_of (delete_persona_payload cl persona_id old_persona) ''user__id''
     = Some (JStr (get_account_id cl))"
  "map_of (delete_persona_payload cl persona_id old_persona) ''greeting''
     = Some (JStr ''Hello! This is my persona'')"
  "map_of (delete_persona_payload cl persona_id old_persona) ''description''
     = Some (JStr ''This is my persona.'')"
  "map_of (delete_persona_payload cl persona_id old_persona) ''copyable'' = Some (JBool False)"
  "map_of (delete_persona_payload cl persona_id old_persona) ''default_voice_id'' = Some (JStr [])"
  "map_of (delete_persona_payload cl persona_id old_persona) ''img_gen_enabled'' = Some (JBool False)"
  "map_of (delete_persona_payload cl persona_id old_persona) ''is_persona'' = Some (JBool True)"
  "map_of (delete_persona_payload cl persona_id old_persona) ''participant__num_interactions''
     = Some (JInt 0)"
  "map_of (delete_persona_payload cl persona_id old_persona) ''visibility'' = Some (JStr ''PRIVATE'')"
  by (simp_all add: delete_persona_payload_def)

lemma delete_payload_agrees_with_edit:
  assumes "k \<noteq> ''archived''" "k \<noteq> ''avatar_rel_path''" "k \<noteq> ''enabled''" "k \<noteq> ''title''"
  shows "map_of (delete_persona_payload cl persona_id old_persona) k
           = map_of (edit_persona_payload cl persona_id [] [] [] old_persona) k"
  using assms by (simp add: delete_persona_payload_def edit_persona_payload_def Let_def str_or_def)

text \<open>
  Claim C4, as the code has it. \<open>delete_persona\<close> fetches the persona first and raises
  \<open>DeleteError\<close> when that fetch raises. Otherwise it posts one payload to the persona
  update endpoint, in which \<open>archived\<close> is true; \<open>name\<close>, \<open>participant__name\<close> and \<open>title\<close>
  are the fetched name; \<open>definition\<close>, \<open>avatar_file_name\<close> and \<open>user__username\<close> are the
  fetched definition, avatar file name and author username; \<open>external_id\<close> is the
  \<open>persona_id\<close> argument and \<open>user__id\<close> the account id of the client; and \<open>greeting\<close>,
  \<open>description\<close>, \<open>copyable\<close>, \<open>default_voice_id\<close>, \<open>img_gen_enabled\<close>, \<open>is_persona\<close>,
  \<open>participant__num_interactions\<close> and \<open>visibility\<close> are fixed values. Its keys are
  \<open>archived\<close> followed by the keys of the payload of \<open>edit_persona\<close> without
  \<open>avatar_rel_path\<close> and \<open>enabled\<close>, and on every key other than these and \<open>title\<close> it
  agrees with the payload of an edit that changes nothing. On a status other than 200 it
  raises \<open>DeleteError\<close>; on status 200 with a JSON object it returns true when \<open>status\<close>
  is \<open>"OK"\<close> and \<open>persona\<close> is not null, and raises \<open>DeleteError\<close> otherwise; on status
  200 with a body that is not a JSON object the call of \<open>get\<close> raises \<open>AttributeError\<close>.
\<close>

theorem delete_persona_archives:
  fixes Persona :: "jvalue \<Rightarrow> error + persona"
  shows
    "(fetch_my_persona Persona self persona_id s = (Inl e, s1)
      \<longrightarrow> delete_persona Persona self persona_id s = (Inl DeleteError, s1))
     \<and> (fetch_my_persona Persona self persona_id s = (Inr old_persona, s1)
      \<longrightarrow> (\<exists>payload.
            calls (snd (delete_persona Persona self persona_id s))
              = calls s1 @ [post_request self persona_update_url (BodyDumps (JObj payload))]
          \<and> map_of payload ''archived'' = Some (JBool True)
          \<and> map_of payload ''name'' = Some (persona_name old_persona)
          \<and> map_of payload ''participant__name'' = Some (persona_name old_persona)
          \<and> map_of payload ''title'' = Some (persona_name old_persona)
          \<and> map_of payload ''definition'' = Some (persona_definition old_persona)
          \<and> map_of payload ''avatar_file_name'' = Some (old_avatar_file_name old_persona)
          \<and> map_of payload ''user__username'' = Some (author_username old_persona)
          \<and> map_of payload ''external_id'' = Some (JStr persona_id)
          \<and> map_of payload ''user__id'' = Some (JStr (get_account_id (client self)))
          \<and> map_of payload ''greeting'' = Some (JStr ''Hello! This is my persona'')
          \<and> map_of payload ''description'' = Some (JStr ''This is my persona.'')
          \<and> map_of payload ''copyable'' = Some (JBool False)
          \<and> map_of payload ''default_voice_id'' = Some (JStr [])
          \<and> map_of payload ''img_gen_enabled'' = Some (JBool False)
          \<and> map_of payload ''is_persona'' = Some (JBool True)
          \<and> map_of payload ''participant__num_interactions'' = Some (JInt 0)
          \<and> map_of payload ''visibility'' = Some (JStr ''PRIVATE'')
          \<and> map fst payload
              = ''archived'' #
                filter (\<lambda>k. k \<noteq> ''avatar_rel_path'' \<and> k \<noteq> ''enabled'')
                  (map fst (edit_persona_payload (client self) persona_id [] [] [] old_persona))
          \<and> (\<forall>k. k \<noteq> ''archived'' \<and> k \<noteq> ''avatar_rel_path'' \<and> k \<noteq> ''enabled'' \<and> k \<noteq> ''title''
                \<longrightarrow> map_of payload k
                    = map_of (edit_persona_payload (client self) persona_id [] [] [] old_persona) k)
          \<and> (status_code (response_to self s1
                 (post_request self persona_update_url (BodyDumps (JObj payload)))) \<noteq> 200
                \<longrightarrow> fst (delete_persona Persona self persona_id s) = Inl DeleteError)
          \<and> (\<forall>kvs. response_to self s1
                      (post_request self persona_update_url (BodyDumps (JObj payload)))
                    = \<lparr>status_code = 200, json = JObj kvs\<rparr>
                \<longrightarrow> fst (delete_persona Persona self persona_id s)
                    = (if map_of kvs ''status'' = Some (JStr ''OK'')
                          \<and> dict_get kvs ''persona'' JNull \<noteq> JNull
                       then Inr True else Inl DeleteError))
          \<and> (\<forall>j. response_to self s1
                      (post_request self persona_update_url (BodyDumps (JObj payload)))
                    = \<lparr>status_code = 200, json = j\<rparr> \<and> \<not> is_object j
                \<longrightarrow> fst (delete_persona Persona self persona_id s) = Inl AttributeError)))"
proof (intro conjI impI)
  assume "fetch_my_persona Persona self persona_id s = (Inl e, s1)"
  then show "delete_persona Persona self persona_id s = (Inl DeleteError, s1)"
    by (simp add: delete_persona_def)
next
  assume f: "fetch_my_persona Persona self persona_id s = (Inr old_persona, s1)"
  let ?payload = "delete_persona_payload (client self) persona_id old_persona"
  have keys: "map fst ?payload
              = ''archived'' #
                filter (\<lambda>k. k \<noteq> ''avatar_rel_path'' \<and> k \<noteq> ''enabled'')
                  (map fst (edit_persona_payload (client self) persona_id [] [] [] old_persona))"
    by (simp add: delete_persona_payload_keys edit_persona_payload_keys)
  have agree: "\<forall>k. k \<noteq> ''archived'' \<and> k \<noteq> ''avatar_rel_path'' \<and> k \<noteq> ''enabled'' \<and> k \<noteq> ''title''
                \<longrightarrow> map_of ?payload k
                    = map_of (edit_persona_payload (client self) persona_id [] [] [] old_persona) k"
    using delete_payload_agrees_with_edit by blast
  have calls: "calls (snd (delete_persona Persona self persona_id s))
              = calls s1 @ [post_request self persona_update_url (BodyDumps (JObj ?payload))]"
    by (simp add: delete_persona_after_fetch(1)[OF f])
  show "(\<exists>payload.
            calls (snd (delete_persona Persona self persona_id s))
              = calls s1 @ [post_request self persona_update_url (BodyDumps (JObj payload))]
          \<and> map_of payload ''archived'' = Some (JBool True)
          \<and> map_of payload ''name'' = Some (persona_name old_persona)
          \<and> map_of payload ''participant__name'' = Some (persona_name old_persona)
          \<and> map_of payload ''title'' = Some (persona_name old_persona)
          \<and> map_of payload ''definition'' = Some (persona_definition old_persona)
          \<and> map_of payload ''avatar_file_name'' = Some (old_avatar_file_name old_persona)
          \<and> map_of payload ''user__username'' = Some (author_username old_persona)
          \<and> map_of payload ''external_id'' = Some (JStr persona_id)
          \<and> map_of payload ''user__id'' = Some (JStr (get_account_id (client self)))
          \<and> map_of payload ''greeting'' = Some (JStr ''Hello! This is my persona'')
          \<and> map_of payload ''description'' = Some (JStr ''This is my persona.'')
          \<and> map_of payload ''copyable'' = Some (JBool False)
          \<and> map_of payload ''default_voice_id'' = Some (JStr [])
          \<and> map_of payload ''img_gen_enabled'' = Some (JBool False)
          \<and> map_of payload ''is_persona'' = Some (JBool True)
          \<and> map_of payload ''participant__num_interactions'' = Some (JInt 0)
          \<and> map_of payload ''visibility'' = Some (JStr ''PRIVATE'')
          \<and> map fst payload
              = ''archived'' #
                filter (\<lambda>k. k \<noteq> ''avatar_rel_path'' \<and> k \<noteq> ''enabled'')
                  (map fst (edit_persona_payload (client self) persona_id [] [] [] old_persona))
          \<and> (\<forall>k. k \<noteq> ''archived'' \<and> k \<noteq> ''avatar_rel_path'' \<and> k \<noteq> ''enabled'' \<and> k \<noteq> ''title''
                \<longrightarrow> map_of payload k
                    = map_of (edit_persona_payload (client self) persona_id [] [] [] old_persona) k)
          \<and> (status_code (response_to self s1
                 (post_request self persona_update_url (BodyDumps (JObj payload)))) \<noteq> 200
                \<longrightarrow> fst (delete_persona Persona self persona_id s) = Inl DeleteError)
          \<and> (\<forall>kvs. response_to self s1
                      (post_request self persona_update_url (BodyDumps (JObj payload)))
                    = \<lparr>status_code = 200, json = JObj kvs\<rparr>
                \<longrightarrow> fst (delete_persona Persona self persona_id s)
                    = (if map_of kvs ''status'' = Some (JStr ''OK'')
                          \<and> dict_get kvs ''persona'' JNull \<noteq> JNull
                       then Inr True else Inl DeleteError))
          \<and> (\<forall>j. response_to self s1
                      (post_request self persona_update_url (BodyDumps (JObj payload)))
                    = \<lparr>status_code = 200, json = j\<rparr> \<and> \<not> is_object j
                \<longrightarrow> fst (delete_persona Persona self persona_id s) = Inl AttributeError))"
    apply (rule exI[of _ ?payload])
    apply (intro conjI)
    apply (rule calls)
    apply (rule delete_persona_payload_fields)+
    apply (rule keys)
    apply (rule agree)
    apply (rule impI, erule delete_persona_after_fetch(2)[OF f])
    apply (intro allI impI, erule delete_persona_after_fetch(3)[OF f])
    apply (intro allI impI, erule delete_persona_after_fetch(4)[OF f])
    done
qed

lemma delete_payload_of_sample:
  "delete_persona_payload (client persona_server) ''p1'' sample_persona = sample_delete_payload"
  by (simp add: delete_persona_payload_def sample_delete_payload_def sample_persona_def
      old_avatar_file_name_def persona_server_def canned_methods_def)

lemma fetch_sample_persona_replying:
  "fetch_my_persona persona_double (persona_server_replying code j) pid fresh
     = (Inr sample_persona,
        \<lparr>world = (), calls = [get_request (persona_server_replying code j) (persona_url pid)]\<rparr>)"
  by (simp add: fetch_my_persona_def do_request_def persona_server_replying_def fresh_def
      dict_get_def persona_double_sample persona_url_def get_request_def)
    (simp add: sample_persona_json_def)

lemma response_of_persona_server_replying:
  "response_to (persona_server_replying code j) s (post_request m u b)
     = \<lparr>status_code = code, json = j\<rparr>"
  by (simp add: response_to_def persona_server_replying_def post_request_def)

text \<open>
  The claim C4 as stated fails. The fetched persona greets with \<open>Hi\<close>, and the posted
  payload carries the fixed greeting instead; the payload lacks the key \<open>enabled\<close> that
  the payload of \<open>edit_persona\<close> has; and when the POST is answered with status 200 and a
  JSON list, the exception is \<open>AttributeError\<close>, not \<open>DeleteError\<close>.
\<close>

theorem delete_persona_greeting_counterexample:
  "fst (fetch_my_persona persona_double persona_server ''p1'' fresh) = Inr sample_persona
   \<and> persona_greeting sample_persona = JStr ''Hi''
   \<and> py_get sample_persona_json ''greeting'' JNull = Inr (JStr ''Hi'')
   \<and> calls (snd (delete_persona persona_double persona_server ''p1'' fresh))
       = [get_request persona_server (persona_url ''p1''),
          post_request persona_server persona_update_url (BodyDumps (JObj sample_delete_payload))]
   \<and> map_of sample_delete_payload ''greeting'' \<noteq> Some (persona_greeting sample_persona)
   \<and> ''enabled'' \<in> set (map fst (edit_persona_payload (client persona_server) ''p1'' [] [] []
                                    sample_persona))
   \<and> ''enabled'' \<notin> set (map fst sample_delete_payload)
   \<and> fst (fetch_my_persona persona_double (persona_server_replying 200 (JArr [])) ''p1'' fresh)
       = Inr sample_persona
   \<and> fst (delete_persona persona_double (persona_server_replying 200 (JArr [])) ''p1'' fresh)
       = Inl AttributeError
   \<and> fst (delete_persona persona_double (persona_server_replying 200 (JArr [])) ''p1'' fresh)
       \<noteq> Inl DeleteError"
proof -
  have "calls (snd (delete_persona persona_double persona_server ''p1'' fresh))
       = [get_request persona_server (persona_url ''p1''),
          post_request persona_server persona_update_url (BodyDumps (JObj sample_delete_payload))]"
    by (simp add: delete_persona_after_fetch(1)[OF fetch_sample_persona] delete_payload_of_sample)
  moreover have "map_of sample_delete_payload ''greeting'' \<noteq> Some (persona_greeting sample_persona)"
    by (simp add: sample_delete_payload_def sample_persona_def)
  moreover have "''enabled'' \<in> set (map fst (edit_persona_payload (client persona_server) ''p1'' [] [] []
                                    sample_persona))"
    by (simp add: edit_persona_payload_keys)
  moreover have "''enabled'' \<notin> set (map fst sample_delete_payload)"
    by (simp add: sample_delete_payload_def)
  moreover have "py_get sample_persona_json ''greeting'' JNull = Inr (JStr ''Hi'')"
    by (simp add: sample_persona_json_def dict_get_def)
  moreover have "fst (delete_persona persona_double (persona_server_replying 200 (JArr [])) ''p1'' fresh)
       = Inl AttributeError"
    using delete_persona_after_fetch(4)
      [OF fetch_sample_persona_replying [of 200 "JArr []" "''p1''"], where j = "JArr []"]
    by (simp add: response_of_persona_server_replying)
  ultimately show ?thesis
    by (simp add: fetch_sample_persona fetch_sample_persona_replying) (simp add: sample_persona_def)
qed

theorem delete_persona_archives_witness:
  "fetch_my_persona persona_double persona_server ''p1'' fresh
     = (Inr sample_persona, \<lparr>world = (), calls = [get_request persona_server (persona_url ''p1'')]\<rparr>)
   \<and> fetch_my_persona persona_double (canned_methods 404 JNull) ''p1'' fresh
     = (Inl FetchError, after_request (canned_methods 404 JNull) fresh
          (get_request (canned_methods 404 JNull) (persona_url ''p1'')))
   \<and> delete_persona persona_double (canned_methods 404 JNull) ''p1'' fresh
     = (Inl DeleteError, after_request (canned_methods 404 JNull) fresh
          (get_request (canned_methods 404 JNull) (persona_url ''p1'')))
   \<and> (\<exists>payload.
         calls (snd (delete_persona persona_double persona_server ''p1'' fresh))
           = [get_request persona_server (persona_url ''p1''),
              post_request persona_server persona_update_url (BodyDumps (JObj payload))]
       \<and> map_of payload ''archived'' = Some (JBool True)
       \<and> map_of payload ''name'' = Some (JStr ''Alice'')
       \<and> map_of payload ''title'' = Some (JStr ''Alice'')
       \<and> map_of payload ''external_id'' = Some (JStr ''p1'')
       \<and> map_of payload ''user__id'' = Some (JStr ''42'')
       \<and> map_of payload ''greeting'' = Some (JStr ''Hello! This is my persona'')
       \<and> fst (delete_persona persona_double persona_server ''p1'' fresh) = Inr True)
   \<and> fst (delete_persona persona_double (persona_server_replying 500 JNull) ''p1'' fresh)
       = Inl DeleteError
   \<and> fst (delete_persona persona_double
             (persona_server_replying 200 (JObj [(''status'', JStr ''no such persona'')])) ''p1'' fresh)
       = Inl DeleteError
   \<and> fst (delete_persona persona_double (persona_server_replying 200 (JArr [])) ''p1'' fresh)
       = Inl AttributeError"
proof -
  let ?m = "canned_methods 404 JNull"
  have f: "fetch_my_persona persona_double ?m ''p1'' fresh
     = (Inl FetchError, after_request ?m fresh (get_request ?m (persona_url ''p1'')))"
    by (simp add: fetch_my_persona_def do_request_eq response_to_def canned_methods_def persona_url_def)
  have r: "response_to persona_server s r
             = \<lparr>status_code = 200, json = JObj [(''status'', JStr ''OK''), (''persona'', sample_persona_json)]\<rparr>"
    for s r
    by (simp add: response_to_def persona_server_def canned_methods_def)
  have c: "get_account_id (client persona_server) = ''42''"
    by (simp add: persona_server_def canned_methods_def)
  have a: "fst (delete_persona persona_double persona_server ''p1'' fresh) = Inr True
     \<and> (\<exists>payload.
         calls (snd (delete_persona persona_double persona_server ''p1'' fresh))
           = [get_request persona_server (persona_url ''p1''),
              post_request persona_server persona_update_url (BodyDumps (JObj payload))]
       \<and> map_of payload ''archived'' = Some (JBool True)
       \<and> map_of payload ''name'' = Some (JStr ''Alice'')
       \<and> map_of payload ''title'' = Some (JStr ''Alice'')
       \<and> map_of payload ''external_id'' = Some (JStr ''p1'')
       \<and> map_of payload ''user__id'' = Some (JStr ''42'')
       \<and> map_of payload ''greeting'' = Some (JStr ''Hello! This is my persona''))"
    using
      delete_persona_archives [where Persona = persona_double and self = persona_server
        and persona_id = "''p1''" and s = fresh and old_persona = sample_persona
        and ?s1.0 = "\<lparr>world = (), calls = [get_request persona_server (persona_url ''p1'')]\<rparr>"]
      fetch_sample_persona[of "''p1''"]
    by (simp add: r c dict_get_def sample_persona_def) (auto simp: sample_persona_json_def)
  have b: "fst (delete_persona persona_double (persona_server_replying code j) ''p1'' fresh)
             = (if code \<noteq> 200 then Inl DeleteError
                else if \<not> is_object j then Inl AttributeError
                else fst (delete_persona persona_double (persona_server_replying code j) ''p1'' fresh))"
    for code j
    using
      delete_persona_archives [where Persona = persona_double and self = "persona_server_replying code j"
        and persona_id = "''p1''" and s = fresh and old_persona = sample_persona
        and ?s1.0 = "\<lparr>world = (), calls = [get_request (persona_server_replying code j) (persona_url ''p1'')]\<rparr>"]
      fetch_sample_persona_replying[of code j "''p1''"]
    by (auto simp: response_of_persona_server_replying)
  have d: "fst (delete_persona persona_double
             (persona_server_replying 200 (JObj [(''status'', JStr ''no such persona'')])) ''p1'' fresh)
       = Inl DeleteError"
    using
      delete_persona_archives [where Persona = persona_double
        and self = "persona_server_replying 200 (JObj [(''status'', JStr ''no such persona'')])"
        and persona_id = "''p1''" and s = fresh and old_persona = sample_persona
        and ?s1.0 = "\<lparr>world = (), calls = [get_request
           (persona_server_replying 200 (JObj [(''status'', JStr ''no such persona'')])) (persona_url ''p1'')]\<rparr>"]
      fetch_sample_persona_replying[of 200 "JObj [(''status'', JStr ''no such persona'')]" "''p1''"]
    by (auto simp: response_of_persona_server_replying)
  show ?thesis
    using
      delete_persona_archives [where Persona = persona_double and self = ?m and persona_id = "''p1''"
        and s = fresh and e = FetchError
        and ?s1.0 = "after_request ?m fresh (get_request ?m (persona_url ''p1''))"]
      f fetch_sample_persona[of "''p1''"] a b[of 500 JNull] b[of 200 "JArr []"] d
    by simp
qed

section \<open>The voice override\<close>

lemma set_voice_run:
  assumes "voice_id = None \<or> (\<exists>v. voice_id = Some v \<and> v \<noteq> [])"
  shows "snd (set_voice self character_id voice_id s)
           = after_request self s (voice_request self character_id voice_id)"
    and "status_code (response_to self s (voice_request self character_id voice_id)) \<noteq> 200
         \<Longrightarrow> fst (set_voice self character_id voice_id s) = Inl SetError"
    and "response_to self s (voice_request self character_id voice_id)
           = \<lparr>status_code = 200, json = JObj kvs\<rparr>
         \<Longrightarrow> fst (set_voice self character_id voice_id s)
             = (if truthy (dict_get kvs ''success'' (JBool False)) then Inr True else Inl SetError)"
    and "response_to self s (voice_request self character_id voice_id)
           = \<lparr>status_code = 200, json = j\<rparr> \<and> \<not> is_object j
         \<Longrightarrow> fst (set_voice self character_id voice_id s) = Inl AttributeError"
  using assms
  by (auto simp: set_voice_def voice_request_def voice_given_def voice_override_url_def
      none_to_empty_def do_request_eq Let_def py_get_not_object split: sum.splits)

text \<open>
  Claim C6, as the code has it. \<open>set_voice(character_id, "v1")\<close> issues one POST to the
  \<open>update\<close> path of the character's voice override with the body \<open>{"voice_id": "v1"}\<close>;
  \<open>unset_voice\<close> issues one POST to the \<open>delete\<close> path with the body \<open>None\<close>. Either
  raises \<open>SetError\<close> on a status other than 200. On status 200 with a JSON object it
  returns true when the \<open>success\<close> field counts as true in Python and raises \<open>SetError\<close>
  when it counts as false or is absent; for a boolean flag it returns true exactly when
  the flag is true. On status 200 with a body that is not a JSON object the call of
  \<open>get\<close> raises \<open>AttributeError\<close>.
\<close>

theorem voice_override_requests:
  "calls (snd (set_voice self character_id (Some ''v1'') s))
     = calls s @ [post_request self
         (''https://plus.character.ai/chat/character/'' @ character_id @ ''/voice_override/update/'')
         (BodyDumps (JObj [(''voice_id'', JStr ''v1'')]))]
   \<and> calls (snd (unset_voice self character_id s))
     = calls s @ [post_request self
         (''https://plus.character.ai/chat/character/'' @ character_id @ ''/voice_override/delete/'')
         BodyNone]
   \<and> (status_code (response_to self s (voice_request self character_id (Some ''v1''))) \<noteq> 200
        \<longrightarrow> fst (set_voice self character_id (Some ''v1'') s) = Inl SetError)
   \<and> (status_code (response_to self s (voice_request self character_id None)) \<noteq> 200
        \<longrightarrow> fst (unset_voice self character_id s) = Inl SetError)
   \<and> (response_to self s (voice_request self character_id (Some ''v1''))
         = \<lparr>status_code = 200, json = JObj kvs\<rparr>
        \<longrightarrow> fst (set_voice self character_id (Some ''v1'') s)
            = (if truthy (dict_get kvs ''success'' (JBool False)) then Inr True else Inl SetError)
          \<and> (dict_get kvs ''success'' (JBool False) = JBool flag
               \<longrightarrow> (fst (set_voice self character_id (Some ''v1'') s) = Inr True) = flag))
   \<and> (response_to self s (voice_request self character_id None)
         = \<lparr>status_code = 200, json = JObj kvs\<rparr>
        \<longrightarrow> fst (unset_voice self character_id s)
            = (if truthy (dict_get kvs ''success'' (JBool False)) then Inr True else Inl SetError)
          \<and> (dict_get kvs ''success'' (JBool False) = JBool flag
               \<longrightarrow> (fst (unset_voice self character_id s) = Inr True) = flag))
   \<and> (response_to self s (voice_request self character_id (Some ''v1''))
         = \<lparr>status_code = 200, json = j\<rparr> \<and> \<not> is_object j
        \<longrightarrow> fst (set_voice self character_id (Some ''v1'') s) = Inl AttributeError)
   \<and> (response_to self s (voice_request self character_id None)
         = \<lparr>status_code = 200, json = j\<rparr> \<and> \<not> is_object j
        \<longrightarrow> fst (unset_voice self character_id s) = Inl AttributeError)"
proof -
  have a: "Some ''v1'' = None \<or> (\<exists>v. Some ''v1'' = Some v \<and> v \<noteq> [])" by simp
  have b: "(None :: string option) = None \<or> (\<exists>v. (None :: string option) = Some v \<and> v \<noteq> [])" by simp
  note v = set_voice_run[OF a, where self = self and character_id = character_id and s = s]
  note u = set_voice_run[OF b, where self = self and character_id = character_id and s = s]
  show ?thesis
    using v(1) u(1) v(2) u(2) v(3)[where kvs = kvs] u(3)[where kvs = kvs]
      v(4)[where j = j] u(4)[where j = j]
    by (auto simp: unset_voice_def voice_request_def)
qed


theorem voice_override_requests_witness:
  "response_to (canned_methods 200 (JObj [(''success'', JBool True)])) fresh
     (voice_request (canned_methods 200 (JObj [(''success'', JBool True)])) ''c1'' (Some ''v1''))
     = \<lparr>status_code = 200, json = JObj [(''success'', JBool True)]\<rparr>
   \<and> fst (set_voice (canned_methods 200 (JObj [(''success'', JBool True)])) ''c1'' (Some ''v1'') fresh)
       = Inr True
   \<and> fst (unset_voice (canned_methods 200 (JObj [(''success'', JBool True)])) ''c1'' fresh) = Inr True
   \<and> fst (set_voice (canned_methods 200 (JObj [(''success'', JBool False)])) ''c1'' (Some ''v1'') fresh)
       = Inl SetError
   \<and> fst (unset_voice (canned_methods 200 (JObj [])) ''c1'' fresh) = Inl SetError
   \<and> status_code (response_to (canned_methods 500 JNull) fresh
        (voice_request (canned_methods 500 JNull) ''c1'' (Some ''v1''))) \<noteq> 200
   \<and> fst (set_voice (canned_methods 500 JNull) ''c1'' (Some ''v1'') fresh) = Inl SetError
   \<and> fst (unset_voice (canned_methods 500 JNull) ''c1'' fresh) = Inl SetError
   \<and> fst (set_voice (canned_methods 200 (JArr [])) ''c1'' (Some ''v1'') fresh) = Inl AttributeError
   \<and> fst (unset_voice (canned_methods 200 (JArr [])) ''c1'' fresh) = Inl AttributeError"
proof -
  have r: "response_to (canned_methods code j) s q = \<lparr>status_code = code, json = j\<rparr>" for code j s q
    by (simp add: response_to_def canned_methods_def)
  show ?thesis
    using
      voice_override_requests [where self = "canned_methods 200 (JObj [(''success'', JBool True)])"
        and character_id = "''c1''" and s = fresh and kvs = "[(''success'', JBool True)]" and flag = True]
      voice_override_requests [where self = "canned_methods 200 (JObj [(''success'', JBool False)])"
        and character_id = "''c1''" and s = fresh and kvs = "[(''success'', JBool False)]" and flag = False]
      voice_override_requests [where self = "canned_methods 200 (JObj [])"
        and character_id = "''c1''" and s = fresh and kvs = "[]" and flag = False]
      voice_override_requests [where self = "canned_methods 500 JNull"
        and character_id = "''c1''" and s = fresh]
      voice_override_requests [where self = "canned_methods 200 (JArr [])"
        and character_id = "''c1''" and s = fresh and j = "JArr []"]
    by (simp add: r dict_get_def)
qed

text \<open>
  The claim C6 as stated fails. A 200 response whose \<open>success\<close> field is the string
  \<open>"no"\<close>, which is not the flag true, makes both operations return true; and a 200
  response whose body is a JSON list makes both raise \<open>AttributeError\<close>, not
  \<open>SetError\<close>.
\<close>

theorem voice_override_truthiness_counterexample:
  "response_to (canned_methods 200 (JObj [(''success'', JStr ''no'')])) fresh
     (voice_request (canned_methods 200 (JObj [(''success'', JStr ''no'')])) ''c1'' (Some ''v1''))
     = \<lparr>status_code = 200, json = JObj [(''success'', JStr ''no'')]\<rparr>
   \<and> map_of [(''success'', JStr ''no'')] ''success'' \<noteq> Some (JBool True)
   \<and> fst (set_voice (canned_methods 200 (JObj [(''success'', JStr ''no'')])) ''c1'' (Some ''v1'') fresh)
       = Inr True
   \<and> fst (unset_voice (canned_methods 200 (JObj [(''success'', JStr ''no'')])) ''c1'' fresh) = Inr True
   \<and> fst (set_voice (canned_methods 200 (JArr [])) ''c1'' (Some ''v1'') fresh) = Inl AttributeError
   \<and> fst (set_voice (canned_methods 200 (JArr [])) ''c1'' (Some ''v1'') fresh) \<noteq> Inl SetError
   \<and> fst (unset_voice (canned_methods 200 (JArr [])) ''c1'' fresh) = Inl AttributeError
   \<and> fst (unset_voice (canned_methods 200 (JArr [])) ''c1'' fresh) \<noteq> Inl SetError"
proof -
  have r: "response_to (canned_methods code j) s q = \<lparr>status_code = code, json = j\<rparr>" for code j s q
    by (simp add: response_to_def canned_methods_def)
  have a: "Some ''v1'' = None \<or> (\<exists>v. Some ''v1'' = Some v \<and> v \<noteq> [])" by simp
  have b: "(None :: string option) = None \<or> (\<exists>v. (None :: string option) = Some v \<and> v \<noteq> [])"
    by simp
  show ?thesis
    using
      set_voice_run(3) [OF a, where self = "canned_methods 200 (JObj [(''success'', JStr ''no'')])"
        and character_id = "''c1''" and s = fresh and kvs = "[(''success'', JStr ''no'')]"]
      set_voice_run(3) [OF b, where self = "canned_methods 200 (JObj [(''success'', JStr ''no'')])"
        and character_id = "''c1''" and s = fresh and kvs = "[(''success'', JStr ''no'')]"]
      set_voice_run(4) [OF a, where self = "canned_methods 200 (JArr [])"
        and character_id = "''c1''" and s = fresh and j = "JArr []"]
      set_voice_run(4) [OF b, where self = "canned_methods 200 (JArr [])"
        and character_id = "''c1''" and s = fresh and j = "JArr []"]
    by (simp add: r dict_get_def unset_voice_def)
qed

end
